theory Spec2Isabelle
  imports Complex_Main "HOL-Library.AList"
begin

section \<open>Python values and exceptions\<close>

text \<open>
  The tool functions of \<^verbatim>\<open>Final.py\<close> work on what \<^verbatim>\<open>json\<close> decoding produces and
  return dictionaries built from it. A value is one of Python's JSON types. A float is
  the exact rational it denotes, \<^verbatim>\<open>nan\<close> and the two infinities apart. A dictionary is
  an association list in insertion order whose first binding of a key is the one a
  lookup finds; every key is a string, as a key of a decoded JSON object is.
\<close>

datatype pyval =
    PNone
  | PBool bool
  | PInt int
  | PFloat rat
  | PNaN
  | PInf bool
  | PStr string
  | PList "pyval list"
  | PDict "(string \<times> pyval) list"

text \<open>
  The subclasses of \<^verbatim>\<open>Exception\<close> that the three handlers tell apart, each with the
  text \<^verbatim>\<open>str(e)\<close> gives. \<^verbatim>\<open>RequestException\<close> stands for
  \<^verbatim>\<open>requests.exceptions.RequestException\<close> and all its subclasses.
\<close>

datatype py_exception =
    RequestException string
  | KeyError string
  | TypeError string
  | AttributeError string
  | IndexError string
  | ValueError string
  | OverflowError string
  | OtherException string

fun exc_str :: "py_exception \<Rightarrow> string" where
  "exc_str (RequestException m) = m"
| "exc_str (KeyError m) = m"
| "exc_str (TypeError m) = m"
| "exc_str (AttributeError m) = m"
| "exc_str (IndexError m) = m"
| "exc_str (ValueError m) = m"
| "exc_str (OverflowError m) = m"
| "exc_str (OtherException m) = m"

text \<open>Sequencing of steps that may raise: the first exception ends the computation.\<close>

definition bindE :: "py_exception + 'a \<Rightarrow> ('a \<Rightarrow> py_exception + 'b) \<Rightarrow> py_exception + 'b" where
  "bindE m f = (case m of Inl e \<Rightarrow> Inl e | Inr v \<Rightarrow> f v)"

definition squote :: string where
  "squote = [CHR 0x27]"

definition dquote :: string where
  "dquote = [CHR 0x22]"

fun type_name :: "pyval \<Rightarrow> string" where
  "type_name PNone = ''NoneType''"
| "type_name (PBool _) = ''bool''"
| "type_name (PInt _) = ''int''"
| "type_name (PFloat _) = ''float''"
| "type_name PNaN = ''float''"
| "type_name (PInf _) = ''float''"
| "type_name (PStr _) = ''str''"
| "type_name (PList _) = ''list''"
| "type_name (PDict _) = ''dict''"

text \<open>\<^verbatim>\<open>bool(v)\<close>, which \<^verbatim>\<open>not v\<close> and \<^verbatim>\<open>if v\<close> test.\<close>

fun truthy :: "pyval \<Rightarrow> bool" where
  "truthy PNone = False"
| "truthy (PBool b) = b"
| "truthy (PInt n) = (n \<noteq> 0)"
| "truthy (PFloat q) = (q \<noteq> 0)"
| "truthy PNaN = True"
| "truthy (PInf _) = True"
| "truthy (PStr s) = (s \<noteq> [])"
| "truthy (PList xs) = (xs \<noteq> [])"
| "truthy (PDict kvs) = (kvs \<noteq> [])"

text \<open>
  \<^verbatim>\<open>v[key]\<close> for a string key. A missing key of a dictionary is a \<^verbatim>\<open>KeyError\<close>
  whose text is the key's \<^verbatim>\<open>repr\<close>; every other type refuses a string index with a
  \<^verbatim>\<open>TypeError\<close>.
\<close>

fun py_getitem :: "pyval \<Rightarrow> string \<Rightarrow> py_exception + pyval" where
  "py_getitem (PDict kvs) k =
     (case map_of kvs k of
        Some v \<Rightarrow> Inr v
      | None \<Rightarrow> Inl (KeyError (squote @ k @ squote)))"
| "py_getitem (PList xs) k = Inl (TypeError ''list indices must be integers or slices, not str'')"
| "py_getitem (PStr s) k = Inl (TypeError (''string indices must be integers, not '' @ squote @ ''str'' @ squote))"
| "py_getitem v k = Inl (TypeError (squote @ type_name v @ squote @ '' object is not subscriptable''))"

text \<open>\<^verbatim>\<open>v[0]\<close>.\<close>

fun py_getitem_0 :: "pyval \<Rightarrow> py_exception + pyval" where
  "py_getitem_0 (PList xs) =
     (case xs of [] \<Rightarrow> Inl (IndexError ''list index out of range'') | x # _ \<Rightarrow> Inr x)"
| "py_getitem_0 (PStr s) =
     (case s of [] \<Rightarrow> Inl (IndexError ''string index out of range'') | c # _ \<Rightarrow> Inr (PStr [c]))"
| "py_getitem_0 (PDict kvs) = Inl (KeyError ''0'')"
| "py_getitem_0 v = Inl (TypeError (squote @ type_name v @ squote @ '' object is not subscriptable''))"

text \<open>\<^verbatim>\<open>v.get(key, default)\<close>: only a dictionary has the method.\<close>

fun py_get :: "pyval \<Rightarrow> string \<Rightarrow> pyval \<Rightarrow> py_exception + pyval" where
  "py_get (PDict kvs) k d = Inr (case map_of kvs k of Some v \<Rightarrow> v | None \<Rightarrow> d)"
| "py_get v k d =
     Inl (AttributeError (squote @ type_name v @ squote @ '' object has no attribute '' @ squote @ ''get'' @ squote))"

text \<open>
  The items a \<^verbatim>\<open>for\<close> loop visits: the elements of a list, the keys of a dictionary,
  the characters of a string; nothing else is iterable.
\<close>

fun py_iter :: "pyval \<Rightarrow> py_exception + pyval list" where
  "py_iter (PList xs) = Inr xs"
| "py_iter (PDict kvs) = Inr (map (\<lambda>kv. PStr (fst kv)) kvs)"
| "py_iter (PStr s) = Inr (map (\<lambda>c. PStr [c]) s)"
| "py_iter v = Inl (TypeError (squote @ type_name v @ squote @ '' object is not iterable''))"

text \<open>
  \<^verbatim>\<open>v[:3]\<close>. A dictionary refuses the slice as a key (\<^verbatim>\<open>TypeError\<close> for an
  unhashable slice; interpreters that hash slices raise \<^verbatim>\<open>KeyError\<close> instead, which
  the one handler that can see it treats alike).
\<close>

fun py_slice3 :: "pyval \<Rightarrow> py_exception + pyval" where
  "py_slice3 (PList xs) = Inr (PList (take 3 xs))"
| "py_slice3 (PStr s) = Inr (PStr (take 3 s))"
| "py_slice3 (PDict kvs) = Inl (TypeError (''unhashable type: '' @ squote @ ''slice'' @ squote))"
| "py_slice3 v = Inl (TypeError (squote @ type_name v @ squote @ '' object is not subscriptable''))"

text \<open>
  \<^verbatim>\<open>round(v)\<close> with one argument: an integer for every finite number, ties of a
  float going to the even neighbour.
\<close>

definition round_half_even :: "rat \<Rightarrow> int" where
  "round_half_even q =
     (let f = \<lfloor>q\<rfloor>; d = q - of_int f
      in if d < 1 / 2 then f else if 1 / 2 < d then f + 1 else if even f then f else f + 1)"

fun py_round :: "pyval \<Rightarrow> py_exception + pyval" where
  "py_round (PInt n) = Inr (PInt n)"
| "py_round (PBool b) = Inr (PInt (if b then 1 else 0))"
| "py_round (PFloat q) = Inr (PInt (round_half_even q))"
| "py_round PNaN = Inl (ValueError ''cannot convert float NaN to integer'')"
| "py_round (PInf _) = Inl (OverflowError ''cannot convert float infinity to integer'')"
| "py_round v =
     Inl (TypeError (''type '' @ type_name v @ '' doesn'' @ squote @ ''t define __round__ method''))"

definition has_key :: "pyval \<Rightarrow> string \<Rightarrow> bool" where
  "has_key v k = (case v of PDict kvs \<Rightarrow> k \<in> set (map fst kvs) | _ \<Rightarrow> False)"

section \<open>The world outside the process\<close>

text \<open>
  What the functions read from outside: the two environment variables
  (\<^verbatim>\<open>os.getenv\<close> gives \<^verbatim>\<open>None\<close> for an unset one), the HTTP client, the clock with
  the local time zone, and the Google Maps client. A naive \<^verbatim>\<open>datetime\<close> is the number
  of microseconds from 0001-01-01 00:00 to it, which is how Python orders naive datetimes
  and adds a \<^verbatim>\<open>timedelta\<close> to one.
\<close>

type_synonym datetime = int

record response =
  status_code :: int
  http_error_text :: string
  json_body :: "py_exception + pyval"

record world =
  OPENWEATHER_API_KEY :: "string option"
  MAPS_API_KEY :: "string option"
  requests_get :: "string \<Rightarrow> py_exception + response"
  datetime_now :: datetime
  datetime_fromtimestamp :: "pyval \<Rightarrow> py_exception + datetime"
  googlemaps_Client :: "string option \<Rightarrow> py_exception option"
  gmaps_places :: "string \<Rightarrow> string \<Rightarrow> py_exception + pyval"

section \<open>getIconicDish\<close>

definition city_dishes :: "(string \<times> (string \<times> string) list) list" where
  "city_dishes =
     [(''Hyderabad'',
         [(''breakfast'', ''Pesarattu''), (''lunch'', ''Hyderabadi Biryani''), (''dinner'', ''Haleem'')]),
      (''Mumbai'',
         [(''breakfast'', ''Vada Pav''), (''lunch'', ''Bombay Sandwich''), (''dinner'', ''Pav Bhaji'')]),
      (''Delhi'',
         [(''breakfast'', ''Chole Bhature''), (''lunch'', ''Butter Chicken''), (''dinner'', ''Rajma Chawal'')]),
      (''Chennai'',
         [(''breakfast'', ''Idli''), (''lunch'', ''Sambar Rice''), (''dinner'', ''Dosa'')])]"

text \<open>\<^verbatim>\<open>d.get(k, default)\<close> on a dictionary known to be one.\<close>

definition dict_get :: "('k \<times> 'v) list \<Rightarrow> 'k \<Rightarrow> 'v \<Rightarrow> 'v" where
  "dict_get d k dflt = (case map_of d k of Some v \<Rightarrow> v | None \<Rightarrow> dflt)"

definition getIconicDish :: "string \<Rightarrow> string \<Rightarrow> string" where
  "getIconicDish city meal_time =
     dict_get (dict_get city_dishes city []) meal_time (''Famous '' @ meal_time @ '' dish'')"

text \<open>ASCII case folding, to say what a casing variant of a key is.\<close>

definition ascii_lower :: "char \<Rightarrow> char" where
  "ascii_lower c =
     (case map_of (zip ''ABCDEFGHIJKLMNOPQRSTUVWXYZ'' ''abcdefghijklmnopqrstuvwxyz'') c of
        Some l \<Rightarrow> l
      | None \<Rightarrow> c)"

definition casing_variant :: "string \<Rightarrow> string \<Rightarrow> bool" where
  "casing_variant s k \<longleftrightarrow> s \<noteq> k \<and> map ascii_lower s = map ascii_lower k"

section \<open>findTopRestaurants\<close>

definition search_query :: "string \<Rightarrow> string \<Rightarrow> string" where
  "search_query city dishName = ''Best authentic '' @ dishName @ '' restaurants in '' @ city"

definition place_entry :: "pyval \<Rightarrow> py_exception + pyval" where
  "place_entry place =
     bindE (py_get place ''address'' (PDict [])) (\<lambda>addressDict.
     bindE (py_get place ''name'' PNone) (\<lambda>name.
     bindE (py_get place ''rating'' (PStr ''N/A'')) (\<lambda>rating.
     bindE (py_get addressDict ''formatted_address'' (PStr ''Address Not Available'')) (\<lambda>address.
       Inr (PDict [(''name'', name), (''rating'', rating), (''address'', address)])))))"

fun restaurants_loop :: "pyval list \<Rightarrow> pyval list \<Rightarrow> py_exception + pyval list" where
  "restaurants_loop [] restaurants = Inr restaurants"
| "restaurants_loop (place # rest) restaurants =
     bindE (place_entry place) (\<lambda>entry. restaurants_loop rest (restaurants @ [entry]))"

definition no_results :: "string \<Rightarrow> string \<Rightarrow> pyval" where
  "no_results city dishName =
     PDict [(''error'',
       PStr (''No results found for '' @ squote @ dishName @ squote @ '' in '' @ city))]"

definition places_result :: "string \<Rightarrow> string \<Rightarrow> pyval \<Rightarrow> py_exception + pyval" where
  "places_result city dishName places =
     (if \<not> truthy places then Inr (no_results city dishName)
      else
        bindE (py_get places ''results'' PNone) (\<lambda>found.
          if \<not> truthy found then Inr (no_results city dishName)
          else
            bindE (py_getitem places ''results'') (\<lambda>results.
            bindE (py_slice3 results) (\<lambda>top.
            bindE (py_iter top) (\<lambda>items.
            bindE (restaurants_loop items []) (\<lambda>restaurants.
              Inr (PDict [(''restaurants'', PList restaurants)])))))))"

text \<open>
  The body of the \<^verbatim>\<open>try\<close>: the client is built from the key, then the query is
  searched. The line printed to standard output between the two is not part of the
  returned value and is left out.
\<close>

definition findTopRestaurants_try :: "world \<Rightarrow> string \<Rightarrow> string \<Rightarrow> py_exception + pyval" where
  "findTopRestaurants_try w city dishName =
     (case googlemaps_Client w (MAPS_API_KEY w) of
        Some e \<Rightarrow> Inl e
      | None \<Rightarrow>
          bindE (gmaps_places w (search_query city dishName) ''en'')
            (places_result city dishName))"

text \<open>
  The result is \<open>Inr\<close> of the returned dictionary, or \<open>Inl\<close> of an exception that
  reaches the caller. The whole body is inside the \<^verbatim>\<open>try\<close>.
\<close>

definition findTopRestaurants :: "world \<Rightarrow> string \<Rightarrow> string \<Rightarrow> py_exception + pyval" where
  "findTopRestaurants w city dishName =
     (case findTopRestaurants_try w city dishName of
        Inr v \<Rightarrow> Inr v
      | Inl e \<Rightarrow>
          Inr (PDict [(''error'',
            PStr (''An unexpected error occurred with Google Maps API: '' @ exc_str e))]))"

text \<open>
  What the restaurant claim calls a well-formed place: a JSON object whose
  \<^verbatim>\<open>address\<close>, when it has one, is an object too. \<open>reduced_place\<close> is the reduction
  the specification describes: the name, the rating or \<^verbatim>\<open>"N/A"\<close>, the formatted
  address or the placeholder.
\<close>

definition place_ok :: "pyval \<Rightarrow> bool" where
  "place_ok p =
     (case p of
        PDict attrs \<Rightarrow>
          (case map_of attrs ''address'' of None \<Rightarrow> True | Some (PDict a) \<Rightarrow> True | Some _ \<Rightarrow> False)
      | _ \<Rightarrow> False)"

definition reduced_place :: "pyval \<Rightarrow> pyval" where
  "reduced_place p =
     (case p of
        PDict attrs \<Rightarrow>
          PDict [(''name'', dict_get attrs ''name'' PNone),
                 (''rating'', dict_get attrs ''rating'' (PStr ''N/A'')),
                 (''address'',
                    (case map_of attrs ''address'' of
                       Some (PDict a) \<Rightarrow> dict_get a ''formatted_address'' (PStr ''Address Not Available'')
                     | _ \<Rightarrow> PStr ''Address Not Available''))]
      | _ \<Rightarrow> PNone)"

definition meal_keys :: "string list" where
  "meal_keys = [''breakfast'', ''lunch'', ''dinner'']"

section \<open>getWeatherDetails\<close>

definition weather_url :: "string \<Rightarrow> string \<Rightarrow> string" where
  "weather_url key city =
     ''http://api.openweathermap.org/data/2.5/forecast?'' @ ''appid='' @ key @ ''&q='' @ city
       @ ''&units=metric''"

text \<open>
  \<^verbatim>\<open>response.raise_for_status()\<close> raises \<^verbatim>\<open>HTTPError\<close>, a \<^verbatim>\<open>RequestException\<close>,
  for a status from 400 to 599, and returns otherwise.
\<close>

definition raise_for_status :: "response \<Rightarrow> py_exception option" where
  "raise_for_status r =
     (if 400 \<le> status_code r \<and> status_code r < 600
      then Some (RequestException (http_error_text r)) else None)"

definition day_us :: int where
  "day_us = 86400000000"

text \<open>\<^verbatim>\<open>datetime.max\<close>, 9999-12-31 23:59:59.999999.\<close>

definition datetime_max :: datetime where
  "datetime_max = 315537897599999999"

definition hour_of :: "datetime \<Rightarrow> int" where
  "hour_of t = (t div 3600000000) mod 24"

text \<open>
  \<^verbatim>\<open>forecastTime > now and forecastTime < now + datetime.timedelta(hours = 24)\<close>: the
  sum is computed only when the first comparison holds, and overflows past
  \<^verbatim>\<open>datetime.max\<close>.
\<close>

definition within_next_24h :: "datetime \<Rightarrow> datetime \<Rightarrow> py_exception + bool" where
  "within_next_24h now forecastTime =
     (if now < forecastTime
      then (if datetime_max < now + day_us then Inl (OverflowError ''date value out of range'')
            else Inr (forecastTime < now + day_us))
      else Inr False)"

record forecasts =
  todayMorningForecast :: pyval
  todayLunchForecast :: pyval
  todayEveningForecast :: pyval

text \<open>
  The three \<^verbatim>\<open>if\<close> statements of the loop body, in their order, for an entry inside
  the 24 hours: a slot takes the entry when the hour is in its window and the slot is
  still falsy.
\<close>

definition assign_slots :: "forecasts \<Rightarrow> pyval \<Rightarrow> datetime \<Rightarrow> forecasts" where
  "assign_slots s forecast forecastTime =
     (let s1 = (if 7 \<le> hour_of forecastTime \<and> hour_of forecastTime < 12
                   \<and> \<not> truthy (todayMorningForecast s)
                then s\<lparr>todayMorningForecast := forecast\<rparr> else s);
          s2 = (if 12 \<le> hour_of forecastTime \<and> hour_of forecastTime < 17
                   \<and> \<not> truthy (todayLunchForecast s1)
                then s1\<lparr>todayLunchForecast := forecast\<rparr> else s1);
          s3 = (if 18 \<le> hour_of forecastTime \<and> hour_of forecastTime < 23
                   \<and> \<not> truthy (todayEveningForecast s2)
                then s2\<lparr>todayEveningForecast := forecast\<rparr> else s2)
      in s3)"

definition forecast_step :: "world \<Rightarrow> datetime \<Rightarrow> forecasts \<Rightarrow> pyval \<Rightarrow> py_exception + forecasts" where
  "forecast_step w now s forecast =
     bindE (py_getitem forecast ''dt'') (\<lambda>dt.
     bindE (datetime_fromtimestamp w dt) (\<lambda>forecastTime.
     bindE (within_next_24h now forecastTime) (\<lambda>inside.
       if inside then Inr (assign_slots s forecast forecastTime) else Inr s)))"

fun forecast_loop :: "world \<Rightarrow> datetime \<Rightarrow> pyval list \<Rightarrow> forecasts \<Rightarrow> py_exception + forecasts" where
  "forecast_loop w now [] s = Inr s"
| "forecast_loop w now (forecast # rest) s =
     bindE (forecast_step w now s forecast) (forecast_loop w now rest)"

text \<open>The dictionary a populated slot gets; the temperature is evaluated first.\<close>

definition slot_summary :: "pyval \<Rightarrow> py_exception + pyval" where
  "slot_summary forecast =
     bindE (py_getitem forecast ''main'') (\<lambda>main.
     bindE (py_getitem main ''temp'') (\<lambda>temp.
     bindE (py_round temp) (\<lambda>rounded.
     bindE (py_getitem forecast ''weather'') (\<lambda>weather.
     bindE (py_getitem_0 weather) (\<lambda>first.
     bindE (py_getitem first ''description'') (\<lambda>description.
       Inr (PDict [(''temperatureInCelsius'', rounded), (''condition'', description)])))))))"

text \<open>\<^verbatim>\<open>if chosen: result[key] = {...}\<close>; the assignment keeps the key's place.\<close>

definition fill_slot :: "string \<Rightarrow> pyval \<Rightarrow> (string \<times> pyval) list \<Rightarrow> py_exception + (string \<times> pyval) list" where
  "fill_slot key chosen result =
     (if truthy chosen
      then bindE (slot_summary chosen) (\<lambda>summary. Inr (AList.update key summary result))
      else Inr result)"

text \<open>The result dictionary with its four keys, then the three conditional assignments.\<close>

definition build_result :: "pyval \<Rightarrow> forecasts \<Rightarrow> py_exception + pyval" where
  "build_result cityName s =
     bindE (fill_slot ''morning'' (todayMorningForecast s)
              [(''city'', cityName), (''morning'', PNone), (''lunch'', PNone),
               (''evening'', PNone)]) (\<lambda>r1.
     bindE (fill_slot ''lunch'' (todayLunchForecast s) r1) (\<lambda>r2.
     bindE (fill_slot ''evening'' (todayEveningForecast s) r2) (\<lambda>r3.
       Inr (PDict r3))))"

text \<open>The body of the \<^verbatim>\<open>try\<close> after the check of \<^verbatim>\<open>cod\<close>.\<close>

definition summarize_forecast :: "world \<Rightarrow> pyval \<Rightarrow> py_exception + pyval" where
  "summarize_forecast w forecastData =
     bindE (py_getitem forecastData ''city'') (\<lambda>cityInfo.
     bindE (py_getitem cityInfo ''name'') (\<lambda>cityName.
     bindE (py_getitem forecastData ''list'') (\<lambda>forecastList.
     bindE (py_iter forecastList) (\<lambda>items.
     bindE (forecast_loop w (datetime_now w) items
              \<lparr>todayMorningForecast = PNone, todayLunchForecast = PNone,
               todayEveningForecast = PNone\<rparr>)
       (build_result cityName)))))"

definition weather_try :: "world \<Rightarrow> string \<Rightarrow> py_exception + pyval" where
  "weather_try w Url =
     bindE (requests_get w Url) (\<lambda>response.
       case raise_for_status response of
         Some e \<Rightarrow> Inl e
       | None \<Rightarrow>
           bindE (json_body response) (\<lambda>forecastData.
           bindE (py_get forecastData ''cod'' PNone) (\<lambda>cod.
             if cod \<noteq> PStr ''200'' then Inr (PDict [])
             else summarize_forecast w forecastData)))"

text \<open>The three handlers, in the order the source lists them.\<close>

fun weather_except :: "py_exception \<Rightarrow> pyval" where
  "weather_except (RequestException m) =
     PDict [(''error'', PStr (''Error connecting to Weather Service: '' @ m))]"
| "weather_except (KeyError m) =
     PDict [(''error'', PStr (''Unexpected data format from weather service. Missing key: '' @ m))]"
| "weather_except e = PDict [(''error'', PStr (''Unexpected Error '' @ exc_str e))]"

text \<open>
  The URL is concatenated before the \<^verbatim>\<open>try\<close>: with the key unset the sum of a string
  and \<^verbatim>\<open>None\<close> raises \<^verbatim>\<open>TypeError\<close>, which no handler sees.
\<close>

definition getWeatherDetails :: "world \<Rightarrow> string \<Rightarrow> py_exception + pyval" where
  "getWeatherDetails w city =
     (case OPENWEATHER_API_KEY w of
        None \<Rightarrow>
          Inl (TypeError (''can only concatenate str (not '' @ dquote @ ''NoneType'' @ dquote
                 @ '') to str''))
      | Some key \<Rightarrow>
          (case weather_try w (weather_url key city) of
             Inr v \<Rightarrow> Inr v
           | Inl e \<Rightarrow> Inr (weather_except e)))"

text \<open>
  What a slot variable holds after the loop: its old value when that was truthy, else
  the entry found for it, if any.
\<close>

definition keep_first :: "pyval \<Rightarrow> pyval option \<Rightarrow> pyval" where
  "keep_first current found =
     (if truthy current then current
      else (case found of None \<Rightarrow> current | Some forecast \<Rightarrow> forecast))"

text \<open>What a slot of the result gets from the entry chosen for it.\<close>

definition slot_value :: "pyval \<Rightarrow> py_exception + pyval" where
  "slot_value chosen = (if truthy chosen then slot_summary chosen else Inr PNone)"

text \<open>
  The words of the specification for the forecast windows: the local time of an entry,
  whether it falls in the next 24 hours and in the hours from \<open>lo\<close> up to \<open>hi\<close>, and
  the first such entry of the list.
\<close>

definition entry_time :: "world \<Rightarrow> pyval \<Rightarrow> py_exception + datetime" where
  "entry_time w forecast = bindE (py_getitem forecast ''dt'') (datetime_fromtimestamp w)"

definition in_window :: "world \<Rightarrow> int \<Rightarrow> int \<Rightarrow> pyval \<Rightarrow> bool" where
  "in_window w lo hi forecast =
     (case entry_time w forecast of
        Inr t \<Rightarrow> datetime_now w < t \<and> t < datetime_now w + day_us \<and> lo \<le> hour_of t \<and> hour_of t < hi
      | Inl _ \<Rightarrow> False)"

definition first_in_window :: "world \<Rightarrow> int \<Rightarrow> int \<Rightarrow> pyval list \<Rightarrow> pyval option" where
  "first_in_window w lo hi entries = find (in_window w lo hi) entries"

definition entry_temp :: "pyval \<Rightarrow> py_exception + pyval" where
  "entry_temp forecast = bindE (py_getitem forecast ''main'') (\<lambda>main. py_getitem main ''temp'')"

definition entry_condition :: "pyval \<Rightarrow> py_exception + pyval" where
  "entry_condition forecast =
     bindE (py_getitem forecast ''weather'') (\<lambda>weather.
     bindE (py_getitem_0 weather) (\<lambda>first. py_getitem first ''description''))"

text \<open>
  What a slot holds according to the specification: null when no entry is in the window,
  else the rounded temperature and the condition of the first entry that is.
\<close>

definition slot_spec :: "world \<Rightarrow> int \<Rightarrow> int \<Rightarrow> pyval list \<Rightarrow> pyval \<Rightarrow> bool" where
  "slot_spec w lo hi entries slot =
     (case first_in_window w lo hi entries of
        None \<Rightarrow> slot = PNone
      | Some forecast \<Rightarrow>
          (case (entry_temp forecast, entry_condition forecast) of
             (Inr temp, Inr description) \<Rightarrow>
               (case py_round temp of
                  Inr (PInt n) \<Rightarrow>
                    slot = PDict [(''temperatureInCelsius'', PInt n), (''condition'', description)]
                | _ \<Rightarrow> False)
           | _ \<Rightarrow> False))"

section \<open>The execution driver's polling loop\<close>

text \<open>
  \<^verbatim>\<open>while True: result = client.executions.get(execution.id); if result.status in
  ["succeeded", "failed"]: break\<close>. The platform is the sequence of what the successive
  calls of \<^verbatim>\<open>executions.get\<close> give: a status, or an exception, which leaves the loop
  for the handler around it. The loop returns the number of the last call with its
  outcome; a loop that never leaves is \<open>None\<close>.
\<close>

definition terminal_status :: "string \<Rightarrow> bool" where
  "terminal_status status \<longleftrightarrow> status \<in> set [''succeeded'', ''failed'']"

partial_function (option) poll_loop ::
  "(nat \<Rightarrow> py_exception + string) \<Rightarrow> nat \<Rightarrow> (nat \<times> (py_exception + string)) option" where
  "poll_loop executions_get n =
     (case executions_get n of
        Inl e \<Rightarrow> Some (n, Inl e)
      | Inr status \<Rightarrow>
          if terminal_status status then Some (n, Inr status)
          else poll_loop executions_get (Suc n))"

definition leaves_loop :: "py_exception + string \<Rightarrow> bool" where
  "leaves_loop outcome = (case outcome of Inl e \<Rightarrow> True | Inr status \<Rightarrow> terminal_status status)"

section \<open>Sample worlds\<close>

text \<open>
  Concrete inputs on which the theorems below are run. The sample clock is UTC:
  1970-01-01 is 62135596800 seconds after 0001-01-01.
\<close>

definition utc_fromtimestamp :: "pyval \<Rightarrow> py_exception + datetime" where
  "utc_fromtimestamp v =
     (case v of
        PInt n \<Rightarrow> Inr ((n + 62135596800) * 1000000)
      | PFloat q \<Rightarrow> Inr (round_half_even (q * 1000000) + 62135596800000000)
      | _ \<Rightarrow> Inl (TypeError (squote @ type_name v @ squote
                @ '' object cannot be interpreted as an integer'')))"

definition sample_forecast :: "int \<Rightarrow> pyval \<Rightarrow> string \<Rightarrow> pyval" where
  "sample_forecast dt temp description =
     PDict [(''dt'', PInt dt), (''main'', PDict [(''temp'', temp)]),
            (''weather'', PList [PDict [(''description'', PStr description)]])]"

text \<open>
  Entries every three hours from 2023-11-15 00:00 UTC (timestamp 1700006400); the last
  one is 09:00 of the day after.
\<close>

definition sample_entries :: "pyval list" where
  "sample_entries =
     [sample_forecast 1700006400 (PFloat (241 / 10)) ''clear sky'',
      sample_forecast 1700017200 (PFloat (238 / 10)) ''clear sky'',
      sample_forecast 1700028000 (PInt 24) ''few clouds'',
      sample_forecast 1700038800 (PFloat (57 / 2)) ''light rain'',
      sample_forecast 1700049600 (PFloat (63 / 2)) ''moderate rain'',
      sample_forecast 1700060400 (PFloat (309 / 10)) ''overcast clouds'',
      sample_forecast 1700071200 (PFloat (276 / 10)) ''broken clouds'',
      sample_forecast 1700082000 (PFloat (26)) ''clear sky'',
      sample_forecast 1700125200 (PFloat (29)) ''haze'']"

definition sample_body :: "pyval list \<Rightarrow> pyval" where
  "sample_body entries =
     PDict [(''cod'', PStr ''200''), (''city'', PDict [(''name'', PStr ''Chennai'')]),
            (''list'', PList entries)]"

definition sample_places :: "pyval list" where
  "sample_places =
     [PDict [(''name'', PStr ''Ratna Cafe''), (''rating'', PFloat (43 / 10)),
             (''address'', PDict [(''formatted_address'', PStr ''255 Triplicane High Rd, Chennai'')])],
      PDict [(''name'', PStr ''Murugan Idli Shop'')],
      PDict [(''name'', PStr ''Sangeetha''), (''rating'', PInt 4),
             (''formatted_address'', PStr ''T Nagar, Chennai'')],
      PDict [(''name'', PStr ''Fourth'')],
      PDict [(''name'', PStr ''Fifth'')]]"

definition sample_Client :: "string option \<Rightarrow> py_exception option" where
  "sample_Client key =
     (case key of
        None \<Rightarrow>
          Some (ValueError ''Must provide API key or enterprise credentials when creating client.'')
      | Some k \<Rightarrow> None)"

text \<open>The sample clock reads 2023-11-14 22:13:20 UTC (timestamp 1700000000).\<close>

definition sample_world :: "pyval list \<Rightarrow> pyval list \<Rightarrow> world" where
  "sample_world entries places =
     \<lparr>OPENWEATHER_API_KEY = Some ''owm-key'',
      MAPS_API_KEY = Some ''maps-key'',
      requests_get = (\<lambda>url. Inr \<lparr>status_code = 200, http_error_text = [],
                                  json_body = Inr (sample_body entries)\<rparr>),
      datetime_now = 63835596800000000,
      datetime_fromtimestamp = utc_fromtimestamp,
      googlemaps_Client = sample_Client,
      gmaps_places = (\<lambda>query language. Inr (PDict [(''status'', PStr ''OK''), (''results'', PList places)]))\<rparr>"

text \<open>The weather service answering an unknown city: HTTP 404 with a JSON body.\<close>

definition not_found_response :: response where
  "not_found_response =
     \<lparr>status_code = 404,
      http_error_text = ''404 Client Error: Not Found for url: http://api.openweathermap.org/data/2.5/forecast?appid=owm-key&q=Atlantis&units=metric'',
      json_body = Inr (PDict [(''cod'', PStr ''404''), (''message'', PStr ''city not found'')])\<rparr>"

definition not_found_world :: world where
  "not_found_world = (sample_world [] [])\<lparr>requests_get := (\<lambda>url. Inr not_found_response)\<rparr>"

text \<open>The same body behind a status that \<^verbatim>\<open>raise_for_status\<close> lets through.\<close>

definition odd_cod_world :: world where
  "odd_cod_world =
     (sample_world [] [])\<lparr>requests_get := (\<lambda>url. Inr (not_found_response\<lparr>status_code := 200\<rparr>))\<rparr>"

definition unset_key_world :: world where
  "unset_key_world = (sample_world sample_entries sample_places)\<lparr>OPENWEATHER_API_KEY := None\<rparr>"

definition sample_statuses :: "nat \<Rightarrow> string" where
  "sample_statuses i = (if i < 2 then ''running'' else if i = 2 then ''succeeded'' else ''failed'')"

text \<open>
  Entries at 23:00 of the sample day, at 17:00 of the next, and at 09:00 two days on:
  inside the 24 hours but in no window, or in a window but outside the 24 hours.
\<close>

definition off_window_entries :: "pyval list" where
  "off_window_entries =
     [sample_forecast 1700002800 (PFloat (251 / 10)) ''clear sky'',
      sample_forecast 1700067600 (PFloat (302 / 10)) ''scattered clouds'',
      sample_forecast 1700125200 (PInt 29) ''haze'']"

text \<open>
  A forecast entry as the weather service documents it: a timestamp the clock converts,
  and the temperature and description a slot reads.
\<close>

definition entry_ok :: "world \<Rightarrow> pyval \<Rightarrow> bool" where
  "entry_ok w forecast =
     (case entry_time w forecast of
        Inr t \<Rightarrow> (case slot_summary forecast of Inr v \<Rightarrow> True | Inl e \<Rightarrow> False)
      | Inl e \<Rightarrow> False)"

section \<open>Basic facts\<close>

lemma bindE_Inl [simp]: "bindE (Inl e) f = Inl e"
  by (simp add: bindE_def)

lemma bindE_Inr [simp]: "bindE (Inr v) f = f v"
  by (simp add: bindE_def)

lemma bindE_eq_Inr: "bindE m f = Inr r \<longleftrightarrow> (\<exists>v. m = Inr v \<and> f v = Inr r)"
  by (cases m) simp_all


section \<open>getIconicDish: the table and its fallback\<close>

lemma map_of_city_dishes_None:
  "city \<notin> set (map fst city_dishes) \<Longrightarrow> map_of city_dishes city = None"
  by (simp add: map_of_eq_None_iff)

text \<open>
  Claim C5. For a city that is not a key of the dish table, and for any meal string at
  all, \<open>getIconicDish\<close> returns \<^verbatim>\<open>"Famous {meal_time} dish"\<close> with the meal string
  put in. The function is total and its value is a string: it has no error result and
  no path that raises.
\<close>

theorem getIconicDish_unknown_city:
  assumes "city \<notin> set (map fst city_dishes)"
  shows "getIconicDish city meal_time = ''Famous '' @ meal_time @ '' dish''"
  using map_of_city_dishes_None [OF assms] by (simp add: getIconicDish_def dict_get_def)

theorem getIconicDish_unknown_city_witness:
  "''Paris'' \<notin> set (map fst city_dishes)
   \<and> getIconicDish ''Paris'' ''brunch'' = ''Famous brunch dish''
   \<and> getIconicDish ''Paris'' ''lunch'' = ''Famous lunch dish''"
proof -
  have h: "''Paris'' \<notin> set (map fst city_dishes)" by (simp add: city_dishes_def)
  show ?thesis
    using h getIconicDish_unknown_city [OF h, of "''brunch''"]
      getIconicDish_unknown_city [OF h, of "''lunch''"]
    by simp
qed

text \<open>
  Claim C6. On the twelve pairs of the four cities and three meals the lookup gives the
  table's entry; for Chennai these are Idli, Sambar Rice and Dosa, and the query
  \<open>findTopRestaurants\<close> builds from each is
  \<^verbatim>\<open>"Best authentic {dish} restaurants in Chennai"\<close>, the string it hands to the places
  search.
\<close>

theorem getIconicDish_table:
  "getIconicDish ''Hyderabad'' ''breakfast'' = ''Pesarattu''
   \<and> getIconicDish ''Hyderabad'' ''lunch'' = ''Hyderabadi Biryani''
   \<and> getIconicDish ''Hyderabad'' ''dinner'' = ''Haleem''
   \<and> getIconicDish ''Mumbai'' ''breakfast'' = ''Vada Pav''
   \<and> getIconicDish ''Mumbai'' ''lunch'' = ''Bombay Sandwich''
   \<and> getIconicDish ''Mumbai'' ''dinner'' = ''Pav Bhaji''
   \<and> getIconicDish ''Delhi'' ''breakfast'' = ''Chole Bhature''
   \<and> getIconicDish ''Delhi'' ''lunch'' = ''Butter Chicken''
   \<and> getIconicDish ''Delhi'' ''dinner'' = ''Rajma Chawal''
   \<and> getIconicDish ''Chennai'' ''breakfast'' = ''Idli''
   \<and> getIconicDish ''Chennai'' ''lunch'' = ''Sambar Rice''
   \<and> getIconicDish ''Chennai'' ''dinner'' = ''Dosa''
   \<and> search_query ''Chennai'' (getIconicDish ''Chennai'' ''breakfast'')
       = ''Best authentic Idli restaurants in Chennai''
   \<and> search_query ''Chennai'' (getIconicDish ''Chennai'' ''lunch'')
       = ''Best authentic Sambar Rice restaurants in Chennai''
   \<and> search_query ''Chennai'' (getIconicDish ''Chennai'' ''dinner'')
       = ''Best authentic Dosa restaurants in Chennai''
   \<and> findTopRestaurants_try w ''Chennai'' (getIconicDish ''Chennai'' ''breakfast'')
       = (case googlemaps_Client w (MAPS_API_KEY w) of
            Some e \<Rightarrow> Inl e
          | None \<Rightarrow>
              bindE (gmaps_places w ''Best authentic Idli restaurants in Chennai'' ''en'')
                (places_result ''Chennai'' ''Idli''))"
  by (simp add: getIconicDish_def dict_get_def city_dishes_def search_query_def
      findTopRestaurants_try_def split: option.splits)

lemma lower_keys:
  "map ascii_lower ''Hyderabad'' = ''hyderabad''" "map ascii_lower ''Mumbai'' = ''mumbai''"
  "map ascii_lower ''Delhi'' = ''delhi''" "map ascii_lower ''Chennai'' = ''chennai''"
  "map ascii_lower ''breakfast'' = ''breakfast''" "map ascii_lower ''lunch'' = ''lunch''"
  "map ascii_lower ''dinner'' = ''dinner''"
  by (simp_all add: ascii_lower_def)

lemma variant_not_city:
  assumes "k \<in> set (map fst city_dishes)" and "casing_variant city k"
  shows "city \<notin> set (map fst city_dishes)"
  using assms unfolding casing_variant_def city_dishes_def
  by (auto simp: lower_keys)

lemma variant_not_meal:
  assumes "k \<in> set meal_keys" and "casing_variant meal_time k"
  shows "meal_time \<notin> set meal_keys"
  using assms unfolding casing_variant_def meal_keys_def
  by (auto simp: lower_keys)

lemma getIconicDish_unknown_meal:
  assumes "meal_time \<notin> set meal_keys"
  shows "getIconicDish city meal_time = ''Famous '' @ meal_time @ '' dish''"
proof (cases "map_of city_dishes city")
  case None
  then show ?thesis by (simp add: getIconicDish_def dict_get_def)
next
  case (Some d)
  then have "(city, d) \<in> set city_dishes" by (rule map_of_SomeD)
  then have "map fst d = meal_keys" by (auto simp: city_dishes_def meal_keys_def)
  with assms have "meal_time \<notin> fst ` set d" by (simp flip: set_map)
  then have "map_of d meal_time = None" by (simp add: map_of_eq_None_iff)
  with Some show ?thesis by (simp add: getIconicDish_def dict_get_def)
qed

text \<open>
  Claim C10. The lookup compares the city and the meal with the table's keys exactly. A
  string that differs from a key only in the case of its letters is no key: for such a
  city (as \<^verbatim>\<open>"chennai"\<close>), whatever the meal, and for such a meal (as
  \<^verbatim>\<open>"Breakfast"\<close>), whatever the city, the result is the fallback
  \<^verbatim>\<open>"Famous {meal_time} dish"\<close>.
\<close>

theorem getIconicDish_case_sensitive:
  "(k \<in> set (map fst city_dishes) \<and> casing_variant city k
      \<longrightarrow> getIconicDish city meal_time = ''Famous '' @ meal_time @ '' dish'')
   \<and> (k \<in> set meal_keys \<and> casing_variant meal_time k
      \<longrightarrow> getIconicDish city meal_time = ''Famous '' @ meal_time @ '' dish'')"
proof (intro conjI impI)
  assume "k \<in> set (map fst city_dishes) \<and> casing_variant city k"
  then have "map_of city_dishes city = None"
    using variant_not_city map_of_city_dishes_None by blast
  then show "getIconicDish city meal_time = ''Famous '' @ meal_time @ '' dish''"
    by (simp add: getIconicDish_def dict_get_def)
next
  assume "k \<in> set meal_keys \<and> casing_variant meal_time k"
  then have "meal_time \<notin> set meal_keys"
    using variant_not_meal by blast
  then show "getIconicDish city meal_time = ''Famous '' @ meal_time @ '' dish''"
    by (rule getIconicDish_unknown_meal)
qed

theorem getIconicDish_case_sensitive_witness:
  "''Chennai'' \<in> set (map fst city_dishes) \<and> casing_variant ''chennai'' ''Chennai''
   \<and> getIconicDish ''chennai'' ''breakfast'' = ''Famous breakfast dish''
   \<and> ''breakfast'' \<in> set meal_keys \<and> casing_variant ''Breakfast'' ''breakfast''
   \<and> getIconicDish ''Chennai'' ''Breakfast'' = ''Famous Breakfast dish''"
proof -
  have a: "''Chennai'' \<in> set (map fst city_dishes) \<and> casing_variant ''chennai'' ''Chennai''"
    by (simp add: city_dishes_def casing_variant_def ascii_lower_def)
  have b: "''breakfast'' \<in> set meal_keys \<and> casing_variant ''Breakfast'' ''breakfast''"
    by (simp add: meal_keys_def casing_variant_def ascii_lower_def)
  show ?thesis
    using a b
      getIconicDish_case_sensitive [of "''Chennai''" "''chennai''" "''breakfast''"]
      getIconicDish_case_sensitive [of "''breakfast''" "''Chennai''" "''Breakfast''"]
    by simp
qed


section \<open>findTopRestaurants: the shape of the result\<close>

lemma place_entry_ok: "place_ok p \<Longrightarrow> place_entry p = Inr (reduced_place p)"
  by (auto simp: place_ok_def place_entry_def reduced_place_def dict_get_def
      split: pyval.splits option.splits)

lemma restaurants_loop_ok:
  "\<forall>p\<in>set ps. place_ok p \<Longrightarrow> restaurants_loop ps acc = Inr (acc @ map reduced_place ps)"
  by (induction ps arbitrary: acc) (simp_all add: place_entry_ok)

lemma places_result_shape:
  assumes "places_result city dishName places = Inr v"
  shows "v = no_results city dishName \<or> (\<exists>rs. v = PDict [(''restaurants'', PList rs)])"
  using assms unfolding places_result_def
  by (auto simp: bindE_eq_Inr split: if_splits)

lemma findTopRestaurants_try_shape:
  assumes "findTopRestaurants_try w city dishName = Inr v"
  shows "v = no_results city dishName \<or> (\<exists>rs. v = PDict [(''restaurants'', PList rs)])"
  using assms places_result_shape unfolding findTopRestaurants_try_def
  by (auto simp: bindE_eq_Inr split: option.splits)

text \<open>
  Claim C9. Whatever the world, the city and the dish, \<open>findTopRestaurants\<close> returns
  (it never raises) a dictionary with exactly one key, which is \<^verbatim>\<open>restaurants\<close> or
  \<^verbatim>\<open>error\<close>: never both, never neither. The success payload is a list under the key
  \<^verbatim>\<open>restaurants\<close>, not a bare list.
\<close>

theorem findTopRestaurants_one_key:
  "\<exists>r. findTopRestaurants w city dishName = Inr r
     \<and> has_key r ''restaurants'' \<noteq> has_key r ''error''
     \<and> ((\<exists>rs. r = PDict [(''restaurants'', PList rs)]) \<or> (\<exists>m. r = PDict [(''error'', PStr m)]))"
proof (cases "findTopRestaurants_try w city dishName")
  case (Inl e)
  then show ?thesis by (simp add: findTopRestaurants_def has_key_def)
next
  case (Inr v)
  then have r: "findTopRestaurants w city dishName = Inr v"
    by (simp add: findTopRestaurants_def)
  from findTopRestaurants_try_shape [OF Inr] show ?thesis
  proof
    assume "v = no_results city dishName"
    with r show ?thesis by (simp add: no_results_def has_key_def)
  next
    assume "\<exists>rs. v = PDict [(''restaurants'', PList rs)]"
    with r show ?thesis by (auto simp: has_key_def)
  qed
qed

theorem findTopRestaurants_one_key_witness:
  "findTopRestaurants (sample_world [] []) ''Chennai'' ''Idli'' =
       Inr (PDict [(''error'', PStr ''No results found for 'Idli' in Chennai'')])
   \<and> findTopRestaurants ((sample_world [] sample_places)\<lparr>MAPS_API_KEY := None\<rparr>) ''Chennai'' ''Idli'' =
       Inr (PDict [(''error'', PStr ''An unexpected error occurred with Google Maps API: Must provide API key or enterprise credentials when creating client.'')])"
proof -
  have a: "findTopRestaurants (sample_world [] []) ''Chennai'' ''Idli'' =
       Inr (PDict [(''error'', PStr ''No results found for 'Idli' in Chennai'')])"
    by (simp add: findTopRestaurants_def findTopRestaurants_try_def sample_world_def sample_Client_def
      places_result_def no_results_def search_query_def squote_def)
  have b: "findTopRestaurants ((sample_world [] sample_places)\<lparr>MAPS_API_KEY := None\<rparr>) ''Chennai'' ''Idli'' =
       Inr (PDict [(''error'', PStr ''An unexpected error occurred with Google Maps API: Must provide API key or enterprise credentials when creating client.'')])"
    by (simp add: findTopRestaurants_def findTopRestaurants_try_def sample_world_def sample_Client_def)
  show ?thesis
    using a b findTopRestaurants_one_key [of "sample_world [] []" "''Chennai''" "''Idli''"]
    by simp
qed

text \<open>
  Claim C4. With a client that could be built and a places search that answered, a
  response of \<open>n \<ge> 1\<close> results whose first three are objects (with an object under
  \<^verbatim>\<open>address\<close> when they have the key) gives exactly the first \<open>min n 3\<close> results in
  order, each reduced to its name, its rating or \<^verbatim>\<open>"N/A"\<close>, and the
  \<^verbatim>\<open>formatted_address\<close> of its \<^verbatim>\<open>address\<close> or \<^verbatim>\<open>"Address Not Available"\<close>. A
  response with no results gives a dictionary whose \<^verbatim>\<open>error\<close> string contains the dish
  name and the city.
\<close>

theorem findTopRestaurants_top_three:
  assumes client: "googlemaps_Client w (MAPS_API_KEY w) = None"
    and resp: "gmaps_places w (search_query city dishName) ''en'' = Inr (PDict resp)"
    and res: "map_of resp ''results'' = Some (PList rs)"
  shows "(rs \<noteq> [] \<and> (\<forall>p\<in>set (take 3 rs). place_ok p) \<longrightarrow>
            findTopRestaurants w city dishName =
              Inr (PDict [(''restaurants'', PList (map reduced_place (take 3 rs)))])
            \<and> length (map reduced_place (take 3 rs)) = min (length rs) 3)
         \<and> (rs = [] \<longrightarrow>
            findTopRestaurants w city dishName =
              Inr (PDict [(''error'',
                PStr (''No results found for '' @ squote @ dishName @ squote @ '' in '' @ city))]))"
proof (intro conjI impI)
  assume a: "rs \<noteq> [] \<and> (\<forall>p\<in>set (take 3 rs). place_ok p)"
  from res have ne: "resp \<noteq> []" by auto
  from a have loop: "restaurants_loop (take 3 rs) [] = Inr (map reduced_place (take 3 rs))"
    by (simp add: restaurants_loop_ok)
  have "places_result city dishName (PDict resp) =
          Inr (PDict [(''restaurants'', PList (map reduced_place (take 3 rs)))])"
    using a ne res loop by (simp add: places_result_def)
  then show "findTopRestaurants w city dishName =
      Inr (PDict [(''restaurants'', PList (map reduced_place (take 3 rs)))])"
    using client resp by (simp add: findTopRestaurants_def findTopRestaurants_try_def)
  show "length (map reduced_place (take 3 rs)) = min (length rs) 3" by simp
next
  assume e: "rs = []"
  from res have ne: "resp \<noteq> []" by auto
  have "places_result city dishName (PDict resp) = Inr (no_results city dishName)"
    using e ne res by (simp add: places_result_def)
  then show "findTopRestaurants w city dishName =
      Inr (PDict [(''error'',
        PStr (''No results found for '' @ squote @ dishName @ squote @ '' in '' @ city))])"
    using client resp by (simp add: findTopRestaurants_def findTopRestaurants_try_def no_results_def)
qed

theorem findTopRestaurants_top_three_witness:
  "findTopRestaurants (sample_world [] sample_places) ''Chennai'' ''Idli'' =
     Inr (PDict [(''restaurants'', PList
       [PDict [(''name'', PStr ''Ratna Cafe''), (''rating'', PFloat (43 / 10)),
               (''address'', PStr ''255 Triplicane High Rd, Chennai'')],
        PDict [(''name'', PStr ''Murugan Idli Shop''), (''rating'', PStr ''N/A''),
               (''address'', PStr ''Address Not Available'')],
        PDict [(''name'', PStr ''Sangeetha''), (''rating'', PInt 4),
               (''address'', PStr ''Address Not Available'')]])])
   \<and> length sample_places = 5
   \<and> findTopRestaurants (sample_world [] []) ''Biryani Town'' ''Haleem'' =
       Inr (PDict [(''error'', PStr ''No results found for 'Haleem' in Biryani Town'')])"
proof -
  have c: "googlemaps_Client (sample_world [] ps) (MAPS_API_KEY (sample_world [] ps)) = None" for ps
    by (simp add: sample_world_def sample_Client_def)
  have g: "gmaps_places (sample_world [] ps) (search_query city d) ''en''
             = Inr (PDict [(''status'', PStr ''OK''), (''results'', PList ps)])" for ps city d
    by (simp add: sample_world_def)
  have m: "map_of [(''status'', PStr ''OK''), (''results'', PList ps)] ''results'' = Some (PList ps)" for ps
    by simp
  have ok: "sample_places \<noteq> [] \<and> (\<forall>p\<in>set (take 3 sample_places). place_ok p)"
    by (simp add: sample_places_def place_ok_def)
  show ?thesis
    using ok
      findTopRestaurants_top_three [OF c g m, of sample_places "''Chennai''" "''Idli''"]
      findTopRestaurants_top_three [OF c g m, of "[]" "''Biryani Town''" "''Haleem''"]
    by (simp add: sample_places_def reduced_place_def dict_get_def squote_def)
qed



section \<open>The polling loop\<close>

lemma poll_loop_stop:
  "leaves_loop (f n) \<Longrightarrow> poll_loop f n = Some (n, f n)"
  by (subst poll_loop.simps) (simp add: leaves_loop_def split: sum.splits)

lemma poll_loop_continue:
  "\<not> leaves_loop (f n) \<Longrightarrow> poll_loop f n = poll_loop f (Suc n)"
  by (subst poll_loop.simps) (simp add: leaves_loop_def split: sum.splits)


lemma poll_loop_skip:
  "(\<forall>m. k \<le> m \<and> m < k + d \<longrightarrow> \<not> leaves_loop (f m)) \<Longrightarrow> poll_loop f k = poll_loop f (k + d)"
proof (induction d)
  case 0
  show ?case by simp
next
  case (Suc d)
  then have "poll_loop f k = poll_loop f (k + d)" by simp
  also from Suc.prems have "\<not> leaves_loop (f (k + d))" by simp
  then have "poll_loop f (k + d) = poll_loop f (Suc (k + d))" by (rule poll_loop_continue)
  finally show ?case by simp
qed


lemma poll_loop_Some:
  assumes "poll_loop f k = Some y"
  shows "\<exists>n. k \<le> n \<and> y = (n, f n) \<and> leaves_loop (f n)
           \<and> (\<forall>m. k \<le> m \<and> m < n \<longrightarrow> \<not> leaves_loop (f m))"
proof (rule poll_loop.raw_induct
    [where P = "\<lambda>f k y. \<exists>n. k \<le> n \<and> y = (n, f n) \<and> leaves_loop (f n)
           \<and> (\<forall>m. k \<le> m \<and> m < n \<longrightarrow> \<not> leaves_loop (f m))", OF _ assms])
  fix poll :: "(nat \<Rightarrow> py_exception + string) \<Rightarrow> nat \<Rightarrow> (nat \<times> (py_exception + string)) option"
    and f k y
  assume IH: "\<And>f k y. poll f k = Some y \<Longrightarrow>
      \<exists>n. k \<le> n \<and> y = (n, f n) \<and> leaves_loop (f n)
           \<and> (\<forall>m. k \<le> m \<and> m < n \<longrightarrow> \<not> leaves_loop (f m))"
    and body: "(case f k of
        Inl e \<Rightarrow> Some (k, Inl e)
      | Inr status \<Rightarrow>
          if terminal_status status then Some (k, Inr status) else poll f (Suc k)) = Some y"
  show "\<exists>n. k \<le> n \<and> y = (n, f n) \<and> leaves_loop (f n)
           \<and> (\<forall>m. k \<le> m \<and> m < n \<longrightarrow> \<not> leaves_loop (f m))"
  proof (cases "leaves_loop (f k)")
    case True
    have "y = (k, f k)"
    proof (cases "f k")
      case (Inl e)
      with body show ?thesis by simp
    next
      case (Inr status)
      with True have "terminal_status status" by (simp add: leaves_loop_def)
      with body Inr show ?thesis by simp
    qed
    moreover have "\<forall>m. k \<le> m \<and> m < k \<longrightarrow> \<not> leaves_loop (f m)"
      using leD by blast
    ultimately have "k \<le> k \<and> y = (k, f k) \<and> leaves_loop (f k)
           \<and> (\<forall>m. k \<le> m \<and> m < k \<longrightarrow> \<not> leaves_loop (f m))"
      using True by blast
    then show ?thesis by (rule exI)
  next
    case False
    then obtain status where st: "f k = Inr status" "\<not> terminal_status status"
      by (cases "f k") (simp_all add: leaves_loop_def)
    with body have "poll f (Suc k) = Some y" by simp
    then have "\<exists>n. Suc k \<le> n \<and> y = (n, f n) \<and> leaves_loop (f n)
           \<and> (\<forall>m. Suc k \<le> m \<and> m < n \<longrightarrow> \<not> leaves_loop (f m))" by (rule IH)
    then obtain n where n: "Suc k \<le> n" "y = (n, f n)" "leaves_loop (f n)"
      and later: "\<And>m. Suc k \<le> m \<Longrightarrow> m < n \<Longrightarrow> \<not> leaves_loop (f m)" by blast
    have "\<not> leaves_loop (f m)" if "k \<le> m" "m < n" for m
    proof (cases "m = k")
      case True
      with False show ?thesis by simp
    next
      case False
      with that have "Suc k \<le> m" by simp
      then show ?thesis using that(2) by (rule later)
    qed
    with n have "k \<le> n \<and> y = (n, f n) \<and> leaves_loop (f n)
           \<and> (\<forall>m. k \<le> m \<and> m < n \<longrightarrow> \<not> leaves_loop (f m))" by simp
    then show ?thesis by (rule exI)
  qed
qed

lemma poll_loop_first:
  "poll_loop f 0 = Some (n, r) \<longleftrightarrow>
     r = f n \<and> leaves_loop (f n) \<and> (\<forall>m<n. \<not> leaves_loop (f m))"
proof
  assume "poll_loop f 0 = Some (n, r)"
  from poll_loop_Some [OF this] show "r = f n \<and> leaves_loop (f n) \<and> (\<forall>m<n. \<not> leaves_loop (f m))"
    by auto
next
  assume a: "r = f n \<and> leaves_loop (f n) \<and> (\<forall>m<n. \<not> leaves_loop (f m))"
  then have "poll_loop f 0 = poll_loop f (0 + n)" by (intro poll_loop_skip) auto
  with a show "poll_loop f 0 = Some (n, r)" by (simp add: poll_loop_stop)
qed

lemma poll_loop_None:
  "poll_loop f 0 = None \<longleftrightarrow> (\<forall>n. \<not> leaves_loop (f n))"
proof
  assume none: "poll_loop f 0 = None"
  show "\<forall>n. \<not> leaves_loop (f n)"
  proof (rule ccontr)
    assume "\<not> (\<forall>n. \<not> leaves_loop (f n))"
    then obtain n where "leaves_loop (f n)" by blast
    then have "leaves_loop (f (LEAST n. leaves_loop (f n)))" by (rule LeastI)
    moreover have "\<forall>m<(LEAST n. leaves_loop (f n)). \<not> leaves_loop (f m)"
      using not_less_Least by blast
    ultimately have "poll_loop f 0 = Some (LEAST n. leaves_loop (f n), f (LEAST n. leaves_loop (f n)))"
      by (intro iffD2 [OF poll_loop_first] conjI refl)
    with none show False by simp
  qed
next
  assume a: "\<forall>n. \<not> leaves_loop (f n)"
  show "poll_loop f 0 = None"
  proof (cases "poll_loop f 0")
    case None then show ?thesis .
  next
    case (Some y)
    from poll_loop_Some [OF this] a show ?thesis by blast
  qed
qed



text \<open>
  Claim C7. For every sequence of polled statuses, the loop leaves at call \<open>n\<close> exactly
  when the status of call \<open>n\<close> is \<^verbatim>\<open>"succeeded"\<close> or \<^verbatim>\<open>"failed"\<close> and no earlier
  status was: it stops at the first terminal status. When no status of the sequence is
  terminal the loop never leaves; the body has no other exit, no sleep and no deadline.
\<close>

theorem poll_loop_exits_iff_terminal:
  "(poll_loop (\<lambda>i. Inr (statuses i)) 0 = Some (n, r) \<longleftrightarrow>
      r = Inr (statuses n) \<and> terminal_status (statuses n)
      \<and> (\<forall>m<n. \<not> terminal_status (statuses m)))
   \<and> (poll_loop (\<lambda>i. Inr (statuses i)) 0 = None \<longleftrightarrow> (\<forall>n. \<not> terminal_status (statuses n)))
   \<and> (terminal_status status \<longleftrightarrow> status = ''succeeded'' \<or> status = ''failed'')"
  using poll_loop_first [of "\<lambda>i. Inr (statuses i)" n r] poll_loop_None [of "\<lambda>i. Inr (statuses i)"]
  by (simp add: leaves_loop_def terminal_status_def)

theorem poll_loop_exits_iff_terminal_witness:
  "poll_loop (\<lambda>i. Inr (sample_statuses i)) 0 = Some (2, Inr ''succeeded'')
   \<and> poll_loop (\<lambda>i. Inr ''running'') 0 = None"
proof -
  have a: "sample_statuses 2 = ''succeeded'' \<and> terminal_status (sample_statuses 2)
      \<and> (\<forall>m<2. \<not> terminal_status (sample_statuses m))"
    by (simp add: sample_statuses_def terminal_status_def)
  have b: "\<forall>n::nat. \<not> terminal_status ''running''"
    by (simp add: terminal_status_def)
  show ?thesis
    using a b poll_loop_exits_iff_terminal [of sample_statuses 2 "Inr ''succeeded''"]
      poll_loop_exits_iff_terminal [of "\<lambda>i. ''running''"]
    by simp
qed


section \<open>getWeatherDetails: the loop and the result\<close>

lemma py_getitem_truthy: "py_getitem v k = Inr x \<Longrightarrow> truthy v"
  by (cases v) (auto split: option.splits)

lemma py_round_int: "py_round v = Inr r \<Longrightarrow> \<exists>n. r = PInt n"
  by (cases v) auto



lemma assign_slots_fields:
  "todayMorningForecast (assign_slots s f t) =
      (if 7 \<le> hour_of t \<and> hour_of t < 12 \<and> \<not> truthy (todayMorningForecast s) then f
       else todayMorningForecast s)"
  "todayLunchForecast (assign_slots s f t) =
      (if 12 \<le> hour_of t \<and> hour_of t < 17 \<and> \<not> truthy (todayLunchForecast s) then f
       else todayLunchForecast s)"
  "todayEveningForecast (assign_slots s f t) =
      (if 18 \<le> hour_of t \<and> hour_of t < 23 \<and> \<not> truthy (todayEveningForecast s) then f
       else todayEveningForecast s)"
  by (simp_all add: assign_slots_def Let_def)

lemma within_next_24h_Inr:
  "within_next_24h now t = Inr inside \<Longrightarrow> inside \<longleftrightarrow> now < t \<and> t < now + day_us"
  by (cases "now < t") (simp_all add: within_next_24h_def split: if_splits)

lemma forecast_step_Inr:
  assumes "forecast_step w (datetime_now w) s f = Inr s'"
  shows "truthy f \<and> (\<exists>t. entry_time w f = Inr t)
    \<and> todayMorningForecast s' =
        (if in_window w 7 12 f \<and> \<not> truthy (todayMorningForecast s) then f else todayMorningForecast s)
    \<and> todayLunchForecast s' =
        (if in_window w 12 17 f \<and> \<not> truthy (todayLunchForecast s) then f else todayLunchForecast s)
    \<and> todayEveningForecast s' =
        (if in_window w 18 23 f \<and> \<not> truthy (todayEveningForecast s) then f else todayEveningForecast s)"
proof -
  from assms obtain dt t inside where dt: "py_getitem f ''dt'' = Inr dt"
    and t: "datetime_fromtimestamp w dt = Inr t"
    and inside: "within_next_24h (datetime_now w) t = Inr inside"
    and s': "s' = (if inside then assign_slots s f t else s)"
    unfolding forecast_step_def by (auto simp: bindE_eq_Inr split: if_splits)
  have et: "entry_time w f = Inr t" using dt t by (simp add: entry_time_def)
  note ins = within_next_24h_Inr [OF inside]
  have win: "in_window w lo hi f \<longleftrightarrow> inside \<and> lo \<le> hour_of t \<and> hour_of t < hi" for lo hi
    by (simp add: in_window_def et ins)
  have tf: "truthy f" using dt by (rule py_getitem_truthy)
  have ex: "\<exists>t. entry_time w f = Inr t" using et by blast
  show ?thesis
  proof (cases inside)
    case False
    with s' tf ex show ?thesis by (simp add: win)
  next
    case True
    with s' tf ex show ?thesis by (simp add: win assign_slots_fields)
  qed
qed


lemma keep_first_step:
  "truthy f \<Longrightarrow>
     keep_first (if P f \<and> \<not> truthy current then f else current) (find P rest)
       = keep_first current (find P (f # rest))"
  by (simp add: keep_first_def)

lemma forecast_loop_Inr:
  assumes "forecast_loop w (datetime_now w) fs s = Inr s'"
  shows "(\<forall>f\<in>set fs. truthy f \<and> (\<exists>t. entry_time w f = Inr t))
    \<and> todayMorningForecast s' = keep_first (todayMorningForecast s) (find (in_window w 7 12) fs)
    \<and> todayLunchForecast s' = keep_first (todayLunchForecast s) (find (in_window w 12 17) fs)
    \<and> todayEveningForecast s' = keep_first (todayEveningForecast s) (find (in_window w 18 23) fs)"
  using assms
proof (induction fs arbitrary: s)
  case Nil
  then show ?case by (simp add: keep_first_def)
next
  case (Cons f rest)
  from Cons.prems obtain s1 where
    step: "forecast_step w (datetime_now w) s f = Inr s1"
    and loop: "forecast_loop w (datetime_now w) rest s1 = Inr s'"
    by (auto simp: bindE_eq_Inr)
  note one = forecast_step_Inr [OF step]
  note more = Cons.IH [OF loop]
  from one have tf: "truthy f" by blast
  have "todayMorningForecast s' = keep_first (todayMorningForecast s) (find (in_window w 7 12) (f # rest))"
    using one more keep_first_step [OF tf, of "in_window w 7 12" "todayMorningForecast s" rest] by simp
  moreover have "todayLunchForecast s' = keep_first (todayLunchForecast s) (find (in_window w 12 17) (f # rest))"
    using one more keep_first_step [OF tf, of "in_window w 12 17" "todayLunchForecast s" rest] by simp
  moreover have "todayEveningForecast s' = keep_first (todayEveningForecast s) (find (in_window w 18 23) (f # rest))"
    using one more keep_first_step [OF tf, of "in_window w 18 23" "todayEveningForecast s" rest] by simp
  moreover have "\<forall>f\<in>set (f # rest). truthy f \<and> (\<exists>t. entry_time w f = Inr t)"
    using one more by simp
  ultimately show ?case by blast
qed

lemma slot_summary_Inr:
  assumes "slot_summary f = Inr v"
  shows "\<exists>temp n d. entry_temp f = Inr temp \<and> py_round temp = Inr (PInt n)
           \<and> entry_condition f = Inr d
           \<and> v = PDict [(''temperatureInCelsius'', PInt n), (''condition'', d)]"
proof -
  from assms obtain main temp rounded weather first d where
    a: "py_getitem f ''main'' = Inr main" "py_getitem main ''temp'' = Inr temp"
       "py_round temp = Inr rounded" "py_getitem f ''weather'' = Inr weather"
       "py_getitem_0 weather = Inr first" "py_getitem first ''description'' = Inr d"
       "v = PDict [(''temperatureInCelsius'', rounded), (''condition'', d)]"
    unfolding slot_summary_def by (auto simp: bindE_eq_Inr)
  from a(3) obtain n where "rounded = PInt n" using py_round_int by blast
  with a show ?thesis by (simp add: entry_temp_def entry_condition_def)
qed

lemma slot_value_spec:
  assumes all: "\<forall>f\<in>set entries. truthy f"
    and v: "slot_value (keep_first PNone (find (in_window w lo hi) entries)) = Inr v"
  shows "slot_spec w lo hi entries v"
proof (cases "find (in_window w lo hi) entries")
  case None
  with v show ?thesis by (simp add: slot_spec_def first_in_window_def keep_first_def slot_value_def)
next
  case (Some f)
  then have "f \<in> set entries" by (auto simp: find_Some_iff)
  with all have tf: "truthy f" by blast
  with v Some have "slot_summary f = Inr v" by (simp add: keep_first_def slot_value_def)
  from slot_summary_Inr [OF this] Some show ?thesis
    by (auto simp: slot_spec_def first_in_window_def)
qed

lemma fill_slot_Inr:
  assumes "fill_slot key chosen result = Inr r'"
  shows "\<exists>v. slot_value chosen = Inr v
           \<and> r' = (if truthy chosen then AList.update key v result else result)"
  using assms by (auto simp: fill_slot_def slot_value_def bindE_eq_Inr split: if_splits)

lemma slot_value_falsy: "\<not> truthy chosen \<Longrightarrow> slot_value chosen = Inr v \<Longrightarrow> v = PNone"
  by (simp add: slot_value_def)

lemma build_result_Inr:
  assumes "build_result name s = Inr r"
  shows "\<exists>m l e. slot_value (todayMorningForecast s) = Inr m
           \<and> slot_value (todayLunchForecast s) = Inr l
           \<and> slot_value (todayEveningForecast s) = Inr e
           \<and> r = PDict [(''city'', name), (''morning'', m), (''lunch'', l), (''evening'', e)]"
proof -
  from assms obtain r1 r2 r3 where
    f1: "fill_slot ''morning'' (todayMorningForecast s)
           [(''city'', name), (''morning'', PNone), (''lunch'', PNone), (''evening'', PNone)] = Inr r1"
    and f2: "fill_slot ''lunch'' (todayLunchForecast s) r1 = Inr r2"
    and f3: "fill_slot ''evening'' (todayEveningForecast s) r2 = Inr r3"
    and r: "r = PDict r3"
    unfolding build_result_def by (auto simp: bindE_eq_Inr)
  from fill_slot_Inr [OF f1] obtain m where m: "slot_value (todayMorningForecast s) = Inr m"
    and r1: "r1 = (if truthy (todayMorningForecast s)
        then AList.update ''morning'' m
          [(''city'', name), (''morning'', PNone), (''lunch'', PNone), (''evening'', PNone)]
        else [(''city'', name), (''morning'', PNone), (''lunch'', PNone), (''evening'', PNone)])"
    by blast
  have r1': "r1 = [(''city'', name), (''morning'', m), (''lunch'', PNone), (''evening'', PNone)]"
    using r1 slot_value_falsy [OF _ m] by (cases "truthy (todayMorningForecast s)") simp_all
  from fill_slot_Inr [OF f2] obtain l where l: "slot_value (todayLunchForecast s) = Inr l"
    and r2: "r2 = (if truthy (todayLunchForecast s) then AList.update ''lunch'' l r1 else r1)"
    by blast
  have r2': "r2 = [(''city'', name), (''morning'', m), (''lunch'', l), (''evening'', PNone)]"
    using r2 r1' slot_value_falsy [OF _ l] by (cases "truthy (todayLunchForecast s)") simp_all
  from fill_slot_Inr [OF f3] obtain e where e: "slot_value (todayEveningForecast s) = Inr e"
    and r3: "r3 = (if truthy (todayEveningForecast s) then AList.update ''evening'' e r2 else r2)"
    by blast
  have r3': "r3 = [(''city'', name), (''morning'', m), (''lunch'', l), (''evening'', e)]"
    using r3 r2' slot_value_falsy [OF _ e] by (cases "truthy (todayEveningForecast s)") simp_all
  from m l e r r3' show ?thesis by blast
qed

lemma summarize_forecast_Inr:
  assumes "summarize_forecast w body = Inr r"
  shows "\<exists>cityInfo name lst entries m l e.
      py_getitem body ''city'' = Inr cityInfo \<and> py_getitem cityInfo ''name'' = Inr name
      \<and> py_getitem body ''list'' = Inr lst \<and> py_iter lst = Inr entries
      \<and> (\<forall>f\<in>set entries. \<exists>t. entry_time w f = Inr t)
      \<and> slot_spec w 7 12 entries m \<and> slot_spec w 12 17 entries l \<and> slot_spec w 18 23 entries e
      \<and> r = PDict [(''city'', name), (''morning'', m), (''lunch'', l), (''evening'', e)]"
proof -
  from assms obtain cityInfo name lst entries s where
    c: "py_getitem body ''city'' = Inr cityInfo" "py_getitem cityInfo ''name'' = Inr name"
       "py_getitem body ''list'' = Inr lst" "py_iter lst = Inr entries"
    and loop: "forecast_loop w (datetime_now w) entries
        \<lparr>todayMorningForecast = PNone, todayLunchForecast = PNone, todayEveningForecast = PNone\<rparr> = Inr s"
    and b: "build_result name s = Inr r"
    unfolding summarize_forecast_def by (auto simp: bindE_eq_Inr)
  note L = forecast_loop_Inr [OF loop]
  from L have all: "\<forall>f\<in>set entries. truthy f" and times: "\<forall>f\<in>set entries. \<exists>t. entry_time w f = Inr t"
    by blast+
  from L have s: "todayMorningForecast s = keep_first PNone (find (in_window w 7 12) entries)"
    "todayLunchForecast s = keep_first PNone (find (in_window w 12 17) entries)"
    "todayEveningForecast s = keep_first PNone (find (in_window w 18 23) entries)"
    by simp_all
  from build_result_Inr [OF b] obtain m l e where
    v: "slot_value (todayMorningForecast s) = Inr m" "slot_value (todayLunchForecast s) = Inr l"
       "slot_value (todayEveningForecast s) = Inr e"
    and r: "r = PDict [(''city'', name), (''morning'', m), (''lunch'', l), (''evening'', e)]"
    by blast
  have "slot_spec w 7 12 entries m" using all v(1) unfolding s by (rule slot_value_spec)
  moreover have "slot_spec w 12 17 entries l" using all v(2) unfolding s by (rule slot_value_spec)
  moreover have "slot_spec w 18 23 entries e" using all v(3) unfolding s by (rule slot_value_spec)
  ultimately show ?thesis using c times r by blast
qed

lemma weather_except_error: "\<exists>m. weather_except e = PDict [(''error'', PStr m)]"
  by (cases e) simp_all

lemma weather_except_has_error: "has_key (weather_except e) ''error''"
  using weather_except_error [of e] by (auto simp: has_key_def)

lemma weather_try_Inr:
  assumes "weather_try w url = Inr r" and "r \<noteq> PDict []"
  shows "\<exists>resp body. requests_get w url = Inr resp \<and> raise_for_status resp = None
      \<and> json_body resp = Inr body \<and> py_get body ''cod'' PNone = Inr (PStr ''200'')
      \<and> summarize_forecast w body = Inr r"
  using assms unfolding weather_try_def
  by (auto simp: bindE_eq_Inr split: option.splits if_splits)

lemma getWeatherDetails_success:
  assumes "getWeatherDetails w city = Inr r" and "r \<noteq> PDict []" and "\<not> has_key r ''error''"
  shows "\<exists>key resp body. OPENWEATHER_API_KEY w = Some key
      \<and> requests_get w (weather_url key city) = Inr resp \<and> raise_for_status resp = None
      \<and> json_body resp = Inr body \<and> py_get body ''cod'' PNone = Inr (PStr ''200'')
      \<and> summarize_forecast w body = Inr r"
proof -
  from assms(1) obtain key where key: "OPENWEATHER_API_KEY w = Some key"
    by (cases "OPENWEATHER_API_KEY w") (simp_all add: getWeatherDetails_def)
  show ?thesis
  proof (cases "weather_try w (weather_url key city)")
    case (Inl e)
    with key assms(1) have "r = weather_except e" by (simp add: getWeatherDetails_def)
    with assms(3) weather_except_has_error show ?thesis by simp
  next
    case (Inr v)
    with key assms(1) have "weather_try w (weather_url key city) = Inr r"
      by (simp add: getWeatherDetails_def)
    from weather_try_Inr [OF this assms(2)] key show ?thesis by blast
  qed
qed

lemma windows_disjoint:
  "\<not> (in_window w 7 12 f \<and> in_window w 12 17 f)"
  "\<not> (in_window w 7 12 f \<and> in_window w 18 23 f)"
  "\<not> (in_window w 12 17 f \<and> in_window w 18 23 f)"
  by (auto simp: in_window_def split: sum.splits)

lemma slot_spec_shape:
  "slot_spec w lo hi entries v \<Longrightarrow>
     v = PNone \<or> (\<exists>n d. v = PDict [(''temperatureInCelsius'', PInt n), (''condition'', d)])"
  by (auto simp: slot_spec_def split: option.splits sum.splits pyval.splits)

lemma slot_spec_None:
  "slot_spec w lo hi entries v \<Longrightarrow> first_in_window w lo hi entries = None \<Longrightarrow> v = PNone"
  by (simp add: slot_spec_def)


lemma floor_rat_numeral_div [simp]:
  "\<lfloor>(numeral a / numeral b :: rat)\<rfloor> = numeral a div numeral b"
  using floor_divide_of_int_eq [of "numeral a" "numeral b", where ?'a = rat] by simp

lemmas weather_eval_defs =
  getWeatherDetails_def weather_try_def summarize_forecast_def build_result_def fill_slot_def
  slot_summary_def forecast_step_def assign_slots_def within_next_24h_def hour_of_def day_us_def
  datetime_max_def sample_world_def sample_forecast_def sample_body_def
  utc_fromtimestamp_def raise_for_status_def weather_url_def round_half_even_def Let_def

lemma sample_weather_eval:
  "getWeatherDetails (sample_world sample_entries ps) ''Chennai'' =
     Inr (PDict [(''city'', PStr ''Chennai''),
       (''morning'', PDict [(''temperatureInCelsius'', PInt 28), (''condition'', PStr ''light rain'')]),
       (''lunch'', PDict [(''temperatureInCelsius'', PInt 32), (''condition'', PStr ''moderate rain'')]),
       (''evening'', PDict [(''temperatureInCelsius'', PInt 28), (''condition'', PStr ''broken clouds'')])])"
  by (simp add: weather_eval_defs sample_entries_def)

lemma off_window_eval:
  "getWeatherDetails (sample_world off_window_entries ps) ''Chennai'' =
     Inr (PDict [(''city'', PStr ''Chennai''), (''morning'', PNone), (''lunch'', PNone),
                 (''evening'', PNone)])"
  by (simp add: weather_eval_defs off_window_entries_def)

text \<open>
  Claim C3. For a response on which \<open>getWeatherDetails\<close> succeeds (its result is neither
  the error dictionary nor the empty one), with \<open>entries\<close> the forecast list of the body:
  each of the slots \<^verbatim>\<open>morning\<close>, \<^verbatim>\<open>lunch\<close> and \<^verbatim>\<open>evening\<close> is decided by the first
  entry, in list order, whose local time is strictly between now and now plus 24 hours
  and whose local hour is in \<open>[7,12)\<close>, \<open>[12,17)\<close> or \<open>[18,23)\<close>. The slot holds the
  rounded temperature of that entry, an integer, and its condition; with no such entry
  (every entry outside the 24 hours or outside the window, as at hour 17 or 23) it is
  null. No entry is in two windows.
\<close>

theorem getWeatherDetails_windows:
  assumes "OPENWEATHER_API_KEY w = Some key"
    and "requests_get w (weather_url key city) = Inr resp"
    and "json_body resp = Inr body"
    and "bindE (py_getitem body ''list'') py_iter = Inr entries"
    and "getWeatherDetails w city = Inr r" and "r \<noteq> PDict []" and "\<not> has_key r ''error''"
  shows "(\<exists>name m l e.
            r = PDict [(''city'', name), (''morning'', m), (''lunch'', l), (''evening'', e)]
            \<and> slot_spec w 7 12 entries m \<and> slot_spec w 12 17 entries l
            \<and> slot_spec w 18 23 entries e)
         \<and> (\<forall>f. \<not> (in_window w 7 12 f \<and> in_window w 12 17 f)
               \<and> \<not> (in_window w 7 12 f \<and> in_window w 18 23 f)
               \<and> \<not> (in_window w 12 17 f \<and> in_window w 18 23 f))"
proof -
  from getWeatherDetails_success [OF assms(5-7)] assms(1-3)
  have "summarize_forecast w body = Inr r" by auto
  from summarize_forecast_Inr [OF this] obtain name lst es m l e where
    a: "py_getitem body ''list'' = Inr lst" "py_iter lst = Inr es"
      "slot_spec w 7 12 es m" "slot_spec w 12 17 es l" "slot_spec w 18 23 es e"
      "r = PDict [(''city'', name), (''morning'', m), (''lunch'', l), (''evening'', e)]"
    by blast
  from a(1,2) assms(4) have "es = entries" by simp
  with a have "\<exists>name m l e.
            r = PDict [(''city'', name), (''morning'', m), (''lunch'', l), (''evening'', e)]
            \<and> slot_spec w 7 12 entries m \<and> slot_spec w 12 17 entries l
            \<and> slot_spec w 18 23 entries e" by blast
  then show ?thesis using windows_disjoint by blast
qed

theorem getWeatherDetails_windows_witness:
  "getWeatherDetails (sample_world sample_entries []) ''Chennai'' =
     Inr (PDict [(''city'', PStr ''Chennai''),
       (''morning'', PDict [(''temperatureInCelsius'', PInt 28), (''condition'', PStr ''light rain'')]),
       (''lunch'', PDict [(''temperatureInCelsius'', PInt 32), (''condition'', PStr ''moderate rain'')]),
       (''evening'', PDict [(''temperatureInCelsius'', PInt 28), (''condition'', PStr ''broken clouds'')])])
   \<and> slot_spec (sample_world sample_entries []) 7 12 sample_entries
        (PDict [(''temperatureInCelsius'', PInt 28), (''condition'', PStr ''light rain'')])
   \<and> slot_spec (sample_world sample_entries []) 12 17 sample_entries
        (PDict [(''temperatureInCelsius'', PInt 32), (''condition'', PStr ''moderate rain'')])
   \<and> slot_spec (sample_world sample_entries []) 18 23 sample_entries
        (PDict [(''temperatureInCelsius'', PInt 28), (''condition'', PStr ''broken clouds'')])"
proof -
  let ?w = "sample_world sample_entries []"
  let ?resp = "\<lparr>status_code = 200, http_error_text = [], json_body = Inr (sample_body sample_entries)\<rparr>"
  have key: "OPENWEATHER_API_KEY ?w = Some ''owm-key''" by (simp add: sample_world_def)
  have get: "requests_get ?w (weather_url ''owm-key'' ''Chennai'') = Inr ?resp"
    by (simp add: sample_world_def)
  have js: "json_body ?resp = Inr (sample_body sample_entries)" by simp
  have es: "bindE (py_getitem (sample_body sample_entries) ''list'') py_iter = Inr sample_entries"
    by (simp add: sample_body_def)
  note ev = sample_weather_eval [of "[]"]
  have ne: "PDict [(''city'', PStr ''Chennai''),
       (''morning'', PDict [(''temperatureInCelsius'', PInt 28), (''condition'', PStr ''light rain'')]),
       (''lunch'', PDict [(''temperatureInCelsius'', PInt 32), (''condition'', PStr ''moderate rain'')]),
       (''evening'', PDict [(''temperatureInCelsius'', PInt 28), (''condition'', PStr ''broken clouds'')])]
     \<noteq> PDict []" by simp
  have nerr: "\<not> has_key (PDict [(''city'', PStr ''Chennai''),
       (''morning'', PDict [(''temperatureInCelsius'', PInt 28), (''condition'', PStr ''light rain'')]),
       (''lunch'', PDict [(''temperatureInCelsius'', PInt 32), (''condition'', PStr ''moderate rain'')]),
       (''evening'', PDict [(''temperatureInCelsius'', PInt 28), (''condition'', PStr ''broken clouds'')])])
       ''error''" by (simp add: has_key_def)
  show ?thesis
    using ev getWeatherDetails_windows [OF key get js es ev ne nerr] by auto
qed

text \<open>
  Claim C8. A result of \<open>getWeatherDetails\<close> that is neither the empty dictionary nor an
  error dictionary has exactly the four keys \<^verbatim>\<open>city\<close>, \<^verbatim>\<open>morning\<close>, \<^verbatim>\<open>lunch\<close> and
  \<^verbatim>\<open>evening\<close>. Each slot is present, holding either null or the two-key summary; a slot
  whose window no entry of the response's forecast list falls in holds null.
\<close>

theorem getWeatherDetails_four_keys:
  assumes "getWeatherDetails w city = Inr r" and "r \<noteq> PDict []" and "\<not> has_key r ''error''"
  shows "\<exists>name m l e key resp body entries.
      r = PDict [(''city'', name), (''morning'', m), (''lunch'', l), (''evening'', e)]
      \<and> (m = PNone \<or> (\<exists>n d. m = PDict [(''temperatureInCelsius'', PInt n), (''condition'', d)]))
      \<and> (l = PNone \<or> (\<exists>n d. l = PDict [(''temperatureInCelsius'', PInt n), (''condition'', d)]))
      \<and> (e = PNone \<or> (\<exists>n d. e = PDict [(''temperatureInCelsius'', PInt n), (''condition'', d)]))
      \<and> OPENWEATHER_API_KEY w = Some key \<and> requests_get w (weather_url key city) = Inr resp
      \<and> json_body resp = Inr body \<and> bindE (py_getitem body ''list'') py_iter = Inr entries
      \<and> (first_in_window w 7 12 entries = None \<longrightarrow> m = PNone)
      \<and> (first_in_window w 12 17 entries = None \<longrightarrow> l = PNone)
      \<and> (first_in_window w 18 23 entries = None \<longrightarrow> e = PNone)"
proof -
  from getWeatherDetails_success [OF assms] obtain key resp body where
    k: "OPENWEATHER_API_KEY w = Some key" "requests_get w (weather_url key city) = Inr resp"
      "json_body resp = Inr body"
    and s: "summarize_forecast w body = Inr r" by blast
  from summarize_forecast_Inr [OF s] obtain name lst entries m l e where
    a: "py_getitem body ''list'' = Inr lst" "py_iter lst = Inr entries"
    and sp: "slot_spec w 7 12 entries m" "slot_spec w 12 17 entries l" "slot_spec w 18 23 entries e"
    and r: "r = PDict [(''city'', name), (''morning'', m), (''lunch'', l), (''evening'', e)]"
    by blast
  from a have b: "bindE (py_getitem body ''list'') py_iter = Inr entries" by simp
  have c: "m = PNone \<or> (\<exists>n d. m = PDict [(''temperatureInCelsius'', PInt n), (''condition'', d)])"
    "l = PNone \<or> (\<exists>n d. l = PDict [(''temperatureInCelsius'', PInt n), (''condition'', d)])"
    "e = PNone \<or> (\<exists>n d. e = PDict [(''temperatureInCelsius'', PInt n), (''condition'', d)])"
    by (rule slot_spec_shape [OF sp(1)], rule slot_spec_shape [OF sp(2)],
        rule slot_spec_shape [OF sp(3)])
  have n: "first_in_window w 7 12 entries = None \<longrightarrow> m = PNone"
    "first_in_window w 12 17 entries = None \<longrightarrow> l = PNone"
    "first_in_window w 18 23 entries = None \<longrightarrow> e = PNone"
    using slot_spec_None [OF sp(1)] slot_spec_None [OF sp(2)] slot_spec_None [OF sp(3)]
    by blast+
  have all: "r = PDict [(''city'', name), (''morning'', m), (''lunch'', l), (''evening'', e)]
      \<and> (m = PNone \<or> (\<exists>n d. m = PDict [(''temperatureInCelsius'', PInt n), (''condition'', d)]))
      \<and> (l = PNone \<or> (\<exists>n d. l = PDict [(''temperatureInCelsius'', PInt n), (''condition'', d)]))
      \<and> (e = PNone \<or> (\<exists>n d. e = PDict [(''temperatureInCelsius'', PInt n), (''condition'', d)]))
      \<and> OPENWEATHER_API_KEY w = Some key \<and> requests_get w (weather_url key city) = Inr resp
      \<and> json_body resp = Inr body \<and> bindE (py_getitem body ''list'') py_iter = Inr entries
      \<and> (first_in_window w 7 12 entries = None \<longrightarrow> m = PNone)
      \<and> (first_in_window w 12 17 entries = None \<longrightarrow> l = PNone)
      \<and> (first_in_window w 18 23 entries = None \<longrightarrow> e = PNone)"
    by (intro conjI r c k b n)
  show ?thesis
    apply (rule exI [of _ name], rule exI [of _ m], rule exI [of _ l], rule exI [of _ e])
    apply (rule exI [of _ key], rule exI [of _ resp], rule exI [of _ body], rule exI [of _ entries])
    apply (rule all)
    done
qed

theorem getWeatherDetails_four_keys_witness:
  "getWeatherDetails (sample_world off_window_entries []) ''Chennai'' =
     Inr (PDict [(''city'', PStr ''Chennai''), (''morning'', PNone), (''lunch'', PNone),
                 (''evening'', PNone)])
   \<and> first_in_window (sample_world off_window_entries []) 7 12 off_window_entries = None
   \<and> first_in_window (sample_world off_window_entries []) 12 17 off_window_entries = None
   \<and> first_in_window (sample_world off_window_entries []) 18 23 off_window_entries = None
   \<and> map hour_of [63835599600000000, 63835664400000000, 63835722000000000] = [23, 17, 9]"
proof -
  note ev = off_window_eval [of "[]"]
  have ne: "PDict [(''city'', PStr ''Chennai''), (''morning'', PNone), (''lunch'', PNone),
                 (''evening'', PNone)] \<noteq> PDict []" by simp
  have nerr: "\<not> has_key (PDict [(''city'', PStr ''Chennai''), (''morning'', PNone), (''lunch'', PNone),
                 (''evening'', PNone)]) ''error''" by (simp add: has_key_def)
  have fw: "first_in_window (sample_world off_window_entries []) lo hi off_window_entries = None"
    if "(lo, hi) \<in> {(7, 12), (12, 17), (18, 23)}" for lo hi
    using that
    by (auto simp: first_in_window_def in_window_def entry_time_def off_window_entries_def
        sample_forecast_def sample_world_def utc_fromtimestamp_def hour_of_def day_us_def)
  have h: "map hour_of [63835599600000000, 63835664400000000, 63835722000000000] = [23, 17, 9]"
    by (simp add: hour_of_def)
  show ?thesis
    using ev h fw [of 7 12] fw [of 12 17] fw [of 18 23] getWeatherDetails_four_keys [OF ev ne nerr]
    by simp
qed


section \<open>getWeatherDetails: failures\<close>

text \<open>
  Claim C1 says that neither tool function ever raises, also with its API key unset.
  \<open>getWeatherDetails\<close> builds its URL before the \<^verbatim>\<open>try\<close>: with
  \<^verbatim>\<open>OPENWEATHER_API_KEY\<close> unset the concatenation raises \<^verbatim>\<open>TypeError\<close>, which reaches
  the caller. The lemmas after the theorem give what does hold: with the key set the
  function always returns, a connection failure gives the error string that names the
  weather service, and \<open>findTopRestaurants\<close> always returns.
\<close>

theorem getWeatherDetails_unset_key_raises:
  "OPENWEATHER_API_KEY unset_key_world = None
   \<and> getWeatherDetails unset_key_world ''Chennai'' =
       Inl (TypeError (''can only concatenate str (not '' @ dquote @ ''NoneType'' @ dquote
              @ '') to str''))"
  by (simp add: unset_key_world_def sample_world_def getWeatherDetails_def)

lemma getWeatherDetails_returns_with_key:
  assumes "OPENWEATHER_API_KEY w = Some key"
  shows "\<exists>r. getWeatherDetails w city = Inr r
           \<and> (weather_try w (weather_url key city) = Inr r
               \<or> (\<exists>e. weather_try w (weather_url key city) = Inl e \<and> r = weather_except e))"
  using assms by (cases "weather_try w (weather_url key city)") (simp_all add: getWeatherDetails_def)

lemma getWeatherDetails_connection_failure:
  assumes "OPENWEATHER_API_KEY w = Some key"
    and "requests_get w (weather_url key city) = Inl (RequestException m)"
  shows "getWeatherDetails w city =
           Inr (PDict [(''error'', PStr (''Error connecting to Weather Service: '' @ m))])"
  using assms by (simp add: getWeatherDetails_def weather_try_def)

lemma findTopRestaurants_never_raises: "\<exists>r. findTopRestaurants w city dishName = Inr r"
  by (cases "findTopRestaurants_try w city dishName") (simp_all add: findTopRestaurants_def)

text \<open>
  Claim C2 as stated fails: a response whose body is JSON with \<^verbatim>\<open>cod\<close> \<^verbatim>\<open>"404"\<close> and
  whose HTTP status is 404 makes \<^verbatim>\<open>raise_for_status\<close> raise before the body is read,
  and the result is the error dictionary, not the empty one.
\<close>

theorem getWeatherDetails_http_error_counterexample:
  "json_body not_found_response =
      Inr (PDict [(''cod'', PStr ''404''), (''message'', PStr ''city not found'')])
   \<and> getWeatherDetails not_found_world ''Atlantis'' =
      Inr (PDict [(''error'',
        PStr (''Error connecting to Weather Service: '' @ http_error_text not_found_response))])
   \<and> getWeatherDetails not_found_world ''Atlantis'' \<noteq> Inr (PDict [])"
  by (simp add: not_found_world_def not_found_response_def sample_world_def getWeatherDetails_def
      weather_try_def raise_for_status_def)

text \<open>
  Claim C2, amended. For a response that \<^verbatim>\<open>raise_for_status\<close> lets through and whose
  body is a JSON object whose \<^verbatim>\<open>cod\<close> is absent or is not the string \<^verbatim>\<open>"200"\<close>,
  \<open>getWeatherDetails\<close> returns the empty dictionary, which has no \<^verbatim>\<open>error\<close> key; for a
  response with an HTTP error status it returns the handler's dictionary whatever the
  body says; and every dictionary a handler returns has the key \<^verbatim>\<open>error\<close>, so it is
  never the empty one.
\<close>

theorem getWeatherDetails_cod_not_200:
  assumes "OPENWEATHER_API_KEY w = Some key"
    and "requests_get w (weather_url key city) = Inr resp"
  shows "(raise_for_status resp = None \<and> json_body resp = Inr (PDict kvs)
            \<and> map_of kvs ''cod'' \<noteq> Some (PStr ''200'')
          \<longrightarrow> getWeatherDetails w city = Inr (PDict []))
         \<and> (\<forall>e. raise_for_status resp = Some e \<longrightarrow> getWeatherDetails w city = Inr (weather_except e))
         \<and> \<not> has_key (PDict []) ''error''
         \<and> (\<forall>e. has_key (weather_except e) ''error'' \<and> weather_except e \<noteq> PDict [])"
proof (intro conjI impI allI)
  assume a: "raise_for_status resp = None \<and> json_body resp = Inr (PDict kvs)
            \<and> map_of kvs ''cod'' \<noteq> Some (PStr ''200'')"
  then have "(case map_of kvs ''cod'' of Some v \<Rightarrow> v | None \<Rightarrow> PNone) \<noteq> PStr ''200''"
    by (cases "map_of kvs ''cod''") simp_all
  with a assms show "getWeatherDetails w city = Inr (PDict [])"
    by (simp add: getWeatherDetails_def weather_try_def)
next
  fix e assume "raise_for_status resp = Some e"
  with assms show "getWeatherDetails w city = Inr (weather_except e)"
    by (simp add: getWeatherDetails_def weather_try_def)
next
  show "\<not> has_key (PDict []) ''error''" by (simp add: has_key_def)
next
  fix e show "has_key (weather_except e) ''error''" by (rule weather_except_has_error)
next
  fix e show "weather_except e \<noteq> PDict []" using weather_except_error [of e] by auto
qed

theorem getWeatherDetails_cod_not_200_witness:
  "getWeatherDetails odd_cod_world ''Atlantis'' = Inr (PDict [])
   \<and> getWeatherDetails not_found_world ''Atlantis'' =
       Inr (weather_except (RequestException (http_error_text not_found_response)))"
proof -
  have k: "OPENWEATHER_API_KEY odd_cod_world = Some ''owm-key''"
    "OPENWEATHER_API_KEY not_found_world = Some ''owm-key''"
    by (simp_all add: odd_cod_world_def not_found_world_def sample_world_def)
  have g: "requests_get odd_cod_world (weather_url ''owm-key'' ''Atlantis'')
             = Inr (not_found_response\<lparr>status_code := 200\<rparr>)"
    "requests_get not_found_world (weather_url ''owm-key'' ''Atlantis'') = Inr not_found_response"
    by (simp_all add: odd_cod_world_def not_found_world_def sample_world_def)
  have a: "raise_for_status (not_found_response\<lparr>status_code := 200\<rparr>) = None
      \<and> json_body (not_found_response\<lparr>status_code := 200\<rparr>)
           = Inr (PDict [(''cod'', PStr ''404''), (''message'', PStr ''city not found'')])
      \<and> map_of [(''cod'', PStr ''404''), (''message'', PStr ''city not found'')] ''cod''
           \<noteq> Some (PStr ''200'')"
    by (simp add: raise_for_status_def not_found_response_def)
  have b: "raise_for_status not_found_response
             = Some (RequestException (http_error_text not_found_response))"
    by (simp add: raise_for_status_def not_found_response_def)
  show ?thesis
    using a b
      getWeatherDetails_cod_not_200 [OF k(1) g(1),
        of "[(''cod'', PStr ''404''), (''message'', PStr ''city not found'')]"]
      getWeatherDetails_cod_not_200 [OF k(2) g(2)]
    by simp
qed

section \<open>getWeatherDetails returns a summary for every well-formed response\<close>

lemma forecast_step_total:
  assumes "entry_ok w f" and "datetime_now w + day_us \<le> datetime_max"
  shows "\<exists>s'. forecast_step w (datetime_now w) s f = Inr s'"
proof -
  from assms(1) obtain t where "entry_time w f = Inr t"
    by (auto simp: entry_ok_def split: sum.splits)
  then obtain dt where "py_getitem f ''dt'' = Inr dt" "datetime_fromtimestamp w dt = Inr t"
    by (auto simp: entry_time_def bindE_eq_Inr)
  with assms(2) show ?thesis
    by (simp add: forecast_step_def within_next_24h_def)
qed

lemma forecast_loop_total:
  assumes "\<forall>f\<in>set fs. entry_ok w f" and "datetime_now w + day_us \<le> datetime_max"
  shows "\<exists>s'. forecast_loop w (datetime_now w) fs s = Inr s'"
  using assms(1)
proof (induction fs arbitrary: s)
  case Nil
  show ?case by simp
next
  case (Cons f rest)
  then have "entry_ok w f" by simp
  from forecast_step_total [OF this assms(2)] obtain s1 where
    "forecast_step w (datetime_now w) s f = Inr s1" by blast
  moreover from Cons obtain s' where "forecast_loop w (datetime_now w) rest s1 = Inr s'"
    by fastforce
  ultimately show ?case by simp
qed

lemma slot_value_total:
  assumes "\<forall>f\<in>set fs. entry_ok w f"
  shows "\<exists>v. slot_value (keep_first PNone (find P fs)) = Inr v"
proof (cases "find P fs")
  case None
  then show ?thesis by (simp add: keep_first_def slot_value_def)
next
  case (Some f)
  then have "f \<in> set fs" by (auto simp: find_Some_iff)
  with assms have "entry_ok w f" by blast
  then obtain v where "slot_summary f = Inr v" by (auto simp: entry_ok_def split: sum.splits)
  with Some show ?thesis by (simp add: keep_first_def slot_value_def)
qed

lemma fill_slot_total:
  "slot_value chosen = Inr v \<Longrightarrow> \<exists>r'. fill_slot key chosen result = Inr r'"
  by (simp add: fill_slot_def slot_value_def split: if_splits)

lemma build_result_total:
  assumes "slot_value (todayMorningForecast s) = Inr m"
    and "slot_value (todayLunchForecast s) = Inr l"
    and "slot_value (todayEveningForecast s) = Inr e"
  shows "\<exists>r. build_result name s = Inr r"
proof -
  from fill_slot_total [OF assms(1)] obtain r1 where
    "fill_slot ''morning'' (todayMorningForecast s)
       [(''city'', name), (''morning'', PNone), (''lunch'', PNone), (''evening'', PNone)] = Inr r1"
    by blast
  moreover from fill_slot_total [OF assms(2)] obtain r2 where
    "fill_slot ''lunch'' (todayLunchForecast s) r1 = Inr r2" by blast
  moreover from fill_slot_total [OF assms(3)] obtain r3 where
    "fill_slot ''evening'' (todayEveningForecast s) r2 = Inr r3" by blast
  ultimately show ?thesis by (simp add: build_result_def)
qed

lemma getWeatherDetails_succeeds:
  assumes "OPENWEATHER_API_KEY w = Some key"
    and "requests_get w (weather_url key city) = Inr resp"
    and "raise_for_status resp = None"
    and "json_body resp = Inr body"
    and "py_get body ''cod'' PNone = Inr (PStr ''200'')"
    and "py_getitem body ''city'' = Inr cityInfo" and "py_getitem cityInfo ''name'' = Inr name"
    and "py_getitem body ''list'' = Inr lst" and "py_iter lst = Inr entries"
    and "\<forall>f\<in>set entries. entry_ok w f"
    and "datetime_now w + day_us \<le> datetime_max"
  shows "\<exists>r. getWeatherDetails w city = Inr r \<and> r \<noteq> PDict [] \<and> \<not> has_key r ''error''"
proof -
  from forecast_loop_total [OF assms(10,11)] obtain s where
    loop: "forecast_loop w (datetime_now w) entries
        \<lparr>todayMorningForecast = PNone, todayLunchForecast = PNone, todayEveningForecast = PNone\<rparr> = Inr s"
    by blast
  from forecast_loop_Inr [OF loop]
  have s: "todayMorningForecast s = keep_first PNone (find (in_window w 7 12) entries)"
    "todayLunchForecast s = keep_first PNone (find (in_window w 12 17) entries)"
    "todayEveningForecast s = keep_first PNone (find (in_window w 18 23) entries)"
    by simp_all
  from slot_value_total [OF assms(10)] s obtain m l e where
    "slot_value (todayMorningForecast s) = Inr m" "slot_value (todayLunchForecast s) = Inr l"
    "slot_value (todayEveningForecast s) = Inr e" by metis
  from build_result_total [OF this] obtain r where b: "build_result name s = Inr r" by blast
  from build_result_Inr [OF b] obtain m l e where
    r: "r = PDict [(''city'', name), (''morning'', m), (''lunch'', l), (''evening'', e)]" by blast
  have "summarize_forecast w body = Inr r"
    using assms(6-9) loop b by (simp add: summarize_forecast_def)
  then have "getWeatherDetails w city = Inr r"
    using assms(1-5) by (simp add: getWeatherDetails_def weather_try_def)
  with r show ?thesis by (simp add: has_key_def)
qed

end
